theory Spec2Isabelle
  imports Complex_Main "HOL-Library.AList"
begin

section \<open>Data model of \<open>src/App.tsx\<close>\<close>

text \<open>
  The TypeScript unions \<open>Units\<close>, \<open>BackgroundKind\<close>, \<open>FetchState\<close> and \<open>SearchMode\<close>
  are closed sets of string literals; they become datatypes whose constructors are the
  literals.
\<close>

datatype Units = metric | imperial

datatype BackgroundKind = sunny | rain | snow | storm | cloudy

datatype FetchState = idle | loading | success | error

datatype SearchMode = city | geo

text \<open>
  The element type of every \<open>weather\<close> array,
  \<open>{ id: number; main: WeatherMain; description: string; icon: string }\<close>.
  \<open>WeatherMain\<close> is a union that ends in \<open>| string\<close>, hence a plain string. The
  condition code \<open>id\<close> is an integer code of the provider.
\<close>

record WeatherEntry =
  w_id :: int
  w_main :: string
  w_description :: string
  w_icon :: string

section \<open>Condition classifier\<close>

text \<open>
  \<open>classifyBackground(main, weatherId)\<close>: a chain of early returns. The tests
  \<open>['Drizzle', 'Rain'].includes(main)\<close> compare strings with strict equality.
\<close>

definition classifyBackground :: "string \<Rightarrow> int \<Rightarrow> BackgroundKind" where
  "classifyBackground main weatherId =
     (if weatherId \<ge> 200 \<and> weatherId < 300 then storm
      else if weatherId \<ge> 600 \<and> weatherId < 700 then snow
      else if weatherId \<ge> 500 \<and> weatherId < 600 then rain
      else if weatherId = 800 then sunny
      else if weatherId = 801 \<or> weatherId = 802 then sunny
      else if weatherId \<ge> 803 \<and> weatherId \<le> 804 then cloudy
      else if main \<in> set [''Drizzle'', ''Rain''] then rain
      else if main \<in> set [''Snow''] then snow
      else if main \<in> set [''Thunderstorm''] then storm
      else cloudy)"

text \<open>
  The precedence table of the specification, written from its words: the numeric rules
  in order, then the textual fallback, then the default.
\<close>

definition classify_table :: "int \<Rightarrow> string \<Rightarrow> BackgroundKind" where
  "classify_table code weatherMain =
     (if code \<in> {200 ..< 300} then storm
      else if code \<in> {600 ..< 700} then snow
      else if code \<in> {500 ..< 600} then rain
      else if code = 800 \<or> code = 801 \<or> code = 802 then sunny
      else if code = 803 \<or> code = 804 then cloudy
      else if weatherMain = ''Drizzle'' \<or> weatherMain = ''Rain'' then rain
      else if weatherMain = ''Snow'' then snow
      else if weatherMain = ''Thunderstorm'' then storm
      else cloudy)"

section \<open>Platform helpers\<close>

text \<open>
  A thrown JavaScript error value: its \<open>name\<close> and its \<open>message\<close>.
  \<open>new Error(msg)\<close> and the engine's \<open>TypeError\<close> are the two that occur.
\<close>

datatype exn = JsError (err_name: string) (err_message: string)

definition Error :: "string \<Rightarrow> exn" where
  "Error msg = JsError ''Error'' msg"

definition TypeError :: "string \<Rightarrow> exn" where
  "TypeError msg = JsError ''TypeError'' msg"

text \<open>\<open>Error.prototype.toString\<close>.\<close>

definition exn_toString :: "exn \<Rightarrow> string" where
  "exn_toString e =
     (if err_name e = [] then err_message e
      else if err_message e = [] then err_name e
      else err_name e @ '': '' @ err_message e)"

text \<open>
  Reading a property of \<open>undefined\<close> or of \<open>null\<close> throws a \<open>TypeError\<close>; the wording
  of its message is the engine's, the one of V8 stands for it.
\<close>

definition undefinedProperty :: "string \<Rightarrow> exn" where
  "undefinedProperty p =
     TypeError (''Cannot read properties of undefined (reading '' @ [CHR 0x27] @ p @ [CHR 0x27] @ '')'')"

definition nullProperty :: "string \<Rightarrow> exn" where
  "nullProperty p =
     TypeError (''Cannot read properties of null (reading '' @ [CHR 0x27] @ p @ [CHR 0x27] @ '')'')"

text \<open>
  \<open>String.prototype.trim\<close> on a string of 8-bit characters: the white space and line
  terminator characters below 256.
\<close>

definition isWhiteSpace :: "char \<Rightarrow> bool" where
  "isWhiteSpace c = (c \<in> set [CHR 0x09, CHR 0x0A, CHR 0x0B, CHR 0x0C, CHR 0x0D, CHR 0x20, CHR 0xA0])"

definition trim :: "string \<Rightarrow> string" where
  "trim s = rev (dropWhile isWhiteSpace (rev (dropWhile isWhiteSpace s)))"

text \<open>Decimal rendering of numbers inside template strings.\<close>

definition digitChar :: "nat \<Rightarrow> char" where
  "digitChar n = ''0123456789'' ! n"

fun showNat :: "nat \<Rightarrow> string" where
  "showNat n = (if n < 10 then [digitChar n] else showNat (n div 10) @ [digitChar (n mod 10)])"

declare showNat.simps [simp del]

definition showInt :: "int \<Rightarrow> string" where
  "showInt i = (if i < 0 then ''-'' @ showNat (nat (- i)) else showNat (nat i))"

text \<open>\<open>parts.join(', ')\<close>.\<close>

fun join :: "string \<Rightarrow> string list \<Rightarrow> string" where
  "join sep [] = []"
| "join sep [x] = x"
| "join sep (x # y # ys) = x @ sep @ join sep (y # ys)"

text \<open>
  The UTC calendar fields of \<open>new Date(dt * 1000)\<close>, by the definitions of the language
  standard (ECMA-262, Time Values and Time Range; Day Number; Year Number; Month Number;
  Date Number). A time value beyond \<open>8.64e15\<close> milliseconds on either side of the
  epoch is an invalid date, whose getters all return \<open>NaN\<close>.
\<close>

definition validTime :: "int \<Rightarrow> bool" where
  "validTime ms = (\<bar>ms\<bar> \<le> 8640000000000000)"

text \<open>\<open>Day(t) = floor(t / msPerDay)\<close>.\<close>

definition Day :: "int \<Rightarrow> int" where
  "Day t = t div 86400000"

text \<open>The day number of the first day of year \<open>y\<close>.\<close>

definition DayFromYear :: "int \<Rightarrow> int" where
  "DayFromYear y = 365 * (y - 1970) + (y - 1969) div 4 - (y - 1901) div 100 + (y - 1601) div 400"

text \<open>
  The year of a day: the largest \<open>y\<close> whose first day is not after it. A year of
  365.2425 days on average gives an estimate that is off by one at most, which the two
  comparisons repair.
\<close>

definition YearFromDay :: "int \<Rightarrow> int" where
  "YearFromDay day =
     (let y = 1970 + (day * 400) div 146097 in
      if day < DayFromYear y then y - 1
      else if DayFromYear (y + 1) \<le> day then y + 1
      else y)"

text \<open>\<open>InLeapYear\<close>: 1 in a year of 366 days, 0 in a year of 365.\<close>

definition InLeapYear :: "int \<Rightarrow> int" where
  "InLeapYear y =
     (if y mod 4 \<noteq> 0 then 0 else if y mod 100 \<noteq> 0 then 1 else if y mod 400 \<noteq> 0 then 0 else 1)"

text \<open>
  The tables of \<open>MonthFromTime\<close> (0 is January) and \<open>DateFromTime\<close>, on the day within
  the year.
\<close>

definition MonthFromDay :: "int \<Rightarrow> int \<Rightarrow> int" where
  "MonthFromDay w leap =
     (if w < 31 then 0
      else if w < 59 + leap then 1
      else if w < 90 + leap then 2
      else if w < 120 + leap then 3
      else if w < 151 + leap then 4
      else if w < 181 + leap then 5
      else if w < 212 + leap then 6
      else if w < 243 + leap then 7
      else if w < 273 + leap then 8
      else if w < 304 + leap then 9
      else if w < 334 + leap then 10
      else 11)"

definition DateFromDay :: "int \<Rightarrow> int \<Rightarrow> int" where
  "DateFromDay w leap =
     (let m = MonthFromDay w leap in
      if m = 0 then w + 1
      else if m = 1 then w - 30
      else if m = 2 then w - 58 - leap
      else if m = 3 then w - 89 - leap
      else if m = 4 then w - 119 - leap
      else if m = 5 then w - 150 - leap
      else if m = 6 then w - 180 - leap
      else if m = 7 then w - 211 - leap
      else if m = 8 then w - 242 - leap
      else if m = 9 then w - 272 - leap
      else if m = 10 then w - 303 - leap
      else w - 333 - leap)"

text \<open>\<open>getUTCFullYear()\<close>, \<open>getUTCMonth()\<close> and \<open>getUTCDate()\<close> of a day number.\<close>

definition utcFields :: "int \<Rightarrow> int \<times> int \<times> int" where
  "utcFields day =
     (let y = YearFromDay day;
          leap = InLeapYear y;
          w = day - DayFromYear y
      in (y, MonthFromDay w leap, DateFromDay w leap))"

text \<open>
  The template string
  \<open>`${d.getUTCFullYear()}-${d.getUTCMonth()}-${d.getUTCDate()}`\<close> of a day number, and
  of a timestamp in seconds.
\<close>

definition keyOfDay :: "int \<Rightarrow> string" where
  "keyOfDay day =
     (case utcFields day of
        (y, m, d) \<Rightarrow> showInt y @ ''-'' @ showInt m @ ''-'' @ showInt d)"

definition utcDayKey :: "int \<Rightarrow> string" where
  "utcDayKey dt =
     (let ms = dt * 1000 in
      if validTime ms then keyOfDay (Day ms) else ''NaN-NaN-NaN'')"

text \<open>
  For the proofs, the way back: the day number of calendar fields, and the number a
  decimal rendering stands for.
\<close>

definition monthStart :: "int \<Rightarrow> int \<Rightarrow> int" where
  "monthStart m leap =
     (if m = 0 then 0 else if m = 1 then 31 else if m = 2 then 59 + leap
      else if m = 3 then 90 + leap else if m = 4 then 120 + leap else if m = 5 then 151 + leap
      else if m = 6 then 181 + leap else if m = 7 then 212 + leap else if m = 8 then 243 + leap
      else if m = 9 then 273 + leap else if m = 10 then 304 + leap else 334 + leap)"

definition dayOfFields :: "int \<times> int \<times> int \<Rightarrow> int" where
  "dayOfFields f = (case f of (y, m, d) \<Rightarrow> DayFromYear y + monthStart m (InLeapYear y) + d - 1)"

definition digitVal :: "char \<Rightarrow> nat" where
  "digitVal c = length (takeWhile (\<lambda>d. d \<noteq> c) ''0123456789'')"

definition readNat :: "string \<Rightarrow> nat" where
  "readNat s = foldl (\<lambda>acc c. 10 * acc + digitVal c) 0 s"

section \<open>Payloads\<close>

record OneCallCurrent =
  occ_dt :: int
  occ_sunrise :: int
  occ_sunset :: int
  occ_temp :: real
  occ_feels_like :: real
  occ_humidity :: real
  occ_wind_speed :: real
  occ_weather :: "WeatherEntry list"

text \<open>\<open>OneCallDaily\<close>, its nested \<open>temp: { min; max; day }\<close> flattened.\<close>

record OneCallDaily =
  ocd_dt :: int
  ocd_min :: real
  ocd_max :: real
  ocd_day :: real
  ocd_weather :: "WeatherEntry list"

record OneCallResponse =
  ocr_lat :: real
  ocr_lon :: real
  ocr_timezone :: string
  ocr_timezone_offset :: int
  ocr_current :: OneCallCurrent
  ocr_daily :: "OneCallDaily list"

record ResolvedWeather =
  locationName :: string
  countryCode :: "string option"
  rw_current :: OneCallCurrent
  rw_daily :: "OneCallDaily list"
  timezoneOffset :: int
  rw_lat :: real
  rw_lon :: real

record GeocodingResult =
  geo_name :: string
  geo_lat :: real
  geo_lon :: real
  geo_country :: "string option"
  geo_state :: "string option"

text \<open>
  The in-body status \<open>cod\<close> arrives as a number or as a string; an absent field is
  \<open>None\<close> of the option around it.
\<close>

datatype Cod = CodNum int | CodStr string

record CurrentWeatherResponse =
  cw_coord_lat :: real
  cw_coord_lon :: real
  cw_weather :: "WeatherEntry list"
  cw_temp :: real
  cw_feels_like :: real
  cw_humidity :: real
  cw_wind_speed :: real
  cw_sunrise :: int
  cw_sunset :: int
  cw_dt :: int
  cw_timezone :: "int option"
  cw_cod :: "Cod option"
  cw_message :: "string option"

record ForecastItem =
  fi_dt :: int
  fi_temp :: real
  fi_temp_min :: real
  fi_temp_max :: real
  fi_weather :: "WeatherEntry list"

text \<open>\<open>fr_list = None\<close>: the field \<open>list\<close> is not an array.\<close>

record ForecastResponse =
  fr_list :: "ForecastItem list option"
  fr_city_timezone :: "int option"
  fr_cod :: "Cod option"
  fr_message :: "string option"

text \<open>
  What the geocoding endpoints answer: an array of candidates, an object carrying
  \<open>message\<close> and \<open>cod\<close>, or \<open>null\<close>.
\<close>

datatype GeoBody =
    GeoArray "GeocodingResult list"
  | GeoObject "string option" "Cod option"
  | GeoNull

text \<open>
  The outcome of one \<open>fetch\<close>: the promise rejects, or it resolves to a response with
  its HTTP status and what \<open>resp.json()\<close> will give (a rejection or the parsed body).
\<close>

datatype 'a Fetched = Rejected exn | Response nat "exn + 'a"

definition ok :: "nat \<Rightarrow> bool" where
  "ok status = (200 \<le> status \<and> status \<le> 299)"

text \<open>
  What \<open>getCurrentPosition\<close> does with its callbacks: the success callback gets a
  position, the error callback is called, or neither is ever called.
\<close>

datatype GeoOutcome = Position real real | PositionError | NoAnswer

text \<open>
  Everything outside the hook: the API key constant, the four endpoints as functions of
  the request parameters, and the geolocation capability (\<open>None\<close> when
  \<open>navigator.geolocation\<close> is missing).
\<close>

record Env =
  OPENWEATHER_API_KEY :: string
  net_geocode :: "string \<Rightarrow> GeoBody Fetched"
  net_reverse :: "real \<Rightarrow> real \<Rightarrow> GeoBody Fetched"
  net_current :: "real \<Rightarrow> real \<Rightarrow> Units \<Rightarrow> CurrentWeatherResponse Fetched"
  net_forecast :: "real \<Rightarrow> real \<Rightarrow> Units \<Rightarrow> ForecastResponse Fetched"
  geolocation :: "GeoOutcome option"

text \<open>JavaScript truthiness of an optional string: present and not empty.\<close>

fun truthy :: "string option \<Rightarrow> bool" where
  "truthy None = False"
| "truthy (Some s) = (s \<noteq> [])"

text \<open>\<open>a || b\<close> on an optional string and a default.\<close>

fun orElse :: "string option \<Rightarrow> string \<Rightarrow> string" where
  "orElse None d = d"
| "orElse (Some s) d = (if s = [] then d else s)"

section \<open>Geocoder\<close>

text \<open>
  The \<open>catch\<close> block of \<open>geocodeCity\<close>: an error with a message is thrown again, any
  other one is wrapped.
\<close>

definition geocodeCatch :: "exn \<Rightarrow> exn" where
  "geocodeCatch err =
     (if err_message err \<noteq> [] then err
      else Error (''Failed to geocode city: '' @ exn_toString err))"

text \<open>
  \<open>errorData.message || errorData.cod || errorMessage\<close>, as the template string prints
  it. A number \<open>0\<close> and an empty string are falsy.
\<close>

fun codText :: "Cod option \<Rightarrow> string option" where
  "codText None = None"
| "codText (Some (CodStr s)) = Some s"
| "codText (Some (CodNum n)) = (if n = 0 then None else Some (showInt n))"

definition geocodeErrorMessage :: "string option \<Rightarrow> Cod option \<Rightarrow> nat \<Rightarrow> string" where
  "geocodeErrorMessage message cod status =
     orElse message (orElse (codText cod) (''HTTP '' @ showNat status))"

text \<open>
  Reading a body a second time (\<open>resp.text()\<close> after \<open>resp.json()\<close>) rejects with a
  \<open>TypeError\<close>.
\<close>

definition bodyUsed :: exn where
  "bodyUsed = TypeError ''body stream already read''"

definition geocodeCity :: "Env \<Rightarrow> string \<Rightarrow> exn + GeocodingResult option" where
  "geocodeCity env query =
     (let apiKey = trim (OPENWEATHER_API_KEY env) in
      if apiKey = [] \<or> length apiKey < 20
      then Inl (Error ''API key appears to be invalid or missing'')
      else
        (case net_geocode env (trim query) of
           Rejected err \<Rightarrow> Inl (geocodeCatch err)
         | Response status js \<Rightarrow>
             if \<not> ok status then
               (case js of
                  Inl _ \<Rightarrow> Inl (geocodeCatch bodyUsed)
                | Inr GeoNull \<Rightarrow> Inl (geocodeCatch bodyUsed)
                | Inr errorData \<Rightarrow>
                    (let errorMessage =
                           (case errorData of
                              GeoObject message cod \<Rightarrow> geocodeErrorMessage message cod status
                            | _ \<Rightarrow> ''HTTP '' @ showNat status)
                     in if status = 401
                        then Inl (geocodeCatch (Error (''API key authentication failed: '' @ errorMessage
                               @ ''. Please verify your API key is correct and activated at https://home.openweathermap.org/api_keys'')))
                        else Inl (geocodeCatch (Error (''Geocoding API error ('' @ showNat status @ ''): ''
                               @ errorMessage)))))
             else
               (case js of
                  Inl err \<Rightarrow> Inl (geocodeCatch err)
                | Inr GeoNull \<Rightarrow> Inl (geocodeCatch (nullProperty ''length''))
                | Inr (GeoObject _ _) \<Rightarrow> Inr None
                | Inr (GeoArray []) \<Rightarrow> Inr None
                | Inr (GeoArray (g # _)) \<Rightarrow> Inr (Some g))))"

text \<open>
  \<open>reverseGeocode\<close>: the body of its \<open>try\<close> block, whose throws are values, and the
  function itself, whose \<open>catch\<close> turns every one of them into \<open>null\<close>.
\<close>

definition reverseGeocode_try :: "Env \<Rightarrow> real \<Rightarrow> real \<Rightarrow> exn + GeocodingResult option" where
  "reverseGeocode_try env lat lon =
     (case net_reverse env lat lon of
        Rejected err \<Rightarrow> Inl err
      | Response status js \<Rightarrow>
          if \<not> ok status then Inr None
          else
            (case js of
               Inl err \<Rightarrow> Inl err
             | Inr GeoNull \<Rightarrow> Inl (nullProperty ''length'')
             | Inr (GeoObject _ _) \<Rightarrow> Inr None
             | Inr (GeoArray []) \<Rightarrow> Inr None
             | Inr (GeoArray (g # _)) \<Rightarrow> Inr (Some g)))"

definition reverseGeocode :: "Env \<Rightarrow> real \<Rightarrow> real \<Rightarrow> exn + GeocodingResult option" where
  "reverseGeocode env lat lon =
     (case reverseGeocode_try env lat lon of
        Inl err \<Rightarrow> Inr None
      | Inr r \<Rightarrow> Inr r)"

section \<open>Daily aggregation\<close>

text \<open>
  The values of \<open>dailyMap\<close>. A JavaScript \<open>Map\<close> iterates in insertion order and an
  entry that is mutated keeps its place: an association list under \<open>AList.update\<close>,
  which replaces in place and appends a new key at the end.
\<close>

record DayAcc =
  a_dt :: int
  a_min :: real
  a_max :: real
  a_day :: real
  a_weather :: "WeatherEntry list"

definition dayKeyOf :: "ForecastItem \<Rightarrow> string" where
  "dayKeyOf item = utcDayKey (fi_dt item)"

text \<open>One turn of the loop \<open>for (const item of forecastList)\<close>.\<close>

definition dailyStep :: "(string \<times> DayAcc) list \<Rightarrow> ForecastItem \<Rightarrow> (string \<times> DayAcc) list" where
  "dailyStep dailyMap item =
     (let dayKey = dayKeyOf item;
          existing = map_of dailyMap dayKey;
          temp = fi_temp item;
          mn = fi_temp_min item;
          mx = fi_temp_max item
      in case existing of
           None \<Rightarrow>
             AList.update dayKey
               \<lparr>a_dt = fi_dt item, a_min = mn, a_max = mx, a_day = temp, a_weather = fi_weather item\<rparr>
               dailyMap
         | Some e \<Rightarrow>
             AList.update dayKey
               (e\<lparr>a_min := min (a_min e) mn, a_max := max (a_max e) mx,
                  a_day := temp, a_weather := fi_weather item\<rparr>)
               dailyMap)"

definition buildDailyMap :: "ForecastItem list \<Rightarrow> (string \<times> DayAcc) list" where
  "buildDailyMap forecastList = foldl dailyStep [] forecastList"

definition toDaily :: "DayAcc \<Rightarrow> OneCallDaily" where
  "toDaily v = \<lparr>ocd_dt = a_dt v, ocd_min = a_min v, ocd_max = a_max v, ocd_day = a_day v,
                ocd_weather = a_weather v\<rparr>"

text \<open>\<open>Array.from(dailyMap.entries()).slice(0, 8).map(([_, v]) => ...)\<close>.\<close>

definition aggregate :: "ForecastItem list \<Rightarrow> OneCallDaily list" where
  "aggregate forecastList = map (\<lambda>(_, v). toDaily v) (take 8 (buildDailyMap forecastList))"

text \<open>
  The aggregation as the specification words it, with no reference to the key the code
  builds. The UTC calendar day of a sample is the number of whole days from the epoch
  to its timestamp; the days come in first-seen order; the summary of a day's samples
  is seeded by the first sample, has the exact minimum and maximum of the day, and the
  representative temperature and condition of the latest sample.
\<close>

fun firstSeen :: "'a list \<Rightarrow> 'a list" where
  "firstSeen [] = []"
| "firstSeen (x # xs) = x # filter (\<lambda>y. y \<noteq> x) (firstSeen xs)"

definition utcDayOf :: "ForecastItem \<Rightarrow> int" where
  "utcDayOf item = fi_dt item div 86400"

definition samplesOfDay :: "int \<Rightarrow> ForecastItem list \<Rightarrow> ForecastItem list" where
  "samplesOfDay d items = filter (\<lambda>i. utcDayOf i = d) items"

definition summary :: "ForecastItem list \<Rightarrow> OneCallDaily" where
  "summary g = \<lparr>ocd_dt = fi_dt (hd g),
                ocd_min = Min (set (map fi_temp_min g)),
                ocd_max = Max (set (map fi_temp_max g)),
                ocd_day = fi_temp (last g),
                ocd_weather = fi_weather (last g)\<rparr>"

definition aggregate_spec :: "ForecastItem list \<Rightarrow> OneCallDaily list" where
  "aggregate_spec items =
     take 8 (map (\<lambda>d. summary (samplesOfDay d items)) (firstSeen (map utcDayOf items)))"

text \<open>The samples the code files under one key, for the proofs.\<close>

definition samplesOf :: "string \<Rightarrow> ForecastItem list \<Rightarrow> ForecastItem list" where
  "samplesOf k items = filter (\<lambda>i. dayKeyOf i = k) items"

definition validSample :: "ForecastItem \<Rightarrow> bool" where
  "validSample item = validTime (fi_dt item * 1000)"

section \<open>Forecast fetcher\<close>

text \<open>
  \<open>cod === undefined || cod === 200 || cod === '200'\<close>.
\<close>

definition codOk :: "Cod option \<Rightarrow> bool" where
  "codOk cod = (cod = None \<or> cod = Some (CodNum 200) \<or> cod = Some (CodStr ''200''))"

text \<open>
  \<open>(err.message) || `HTTP ${status}`\<close> where \<open>err\<close> is the parsed body, or \<open>{}\<close> when
  parsing fails.
\<close>

definition httpMessage :: "string option \<Rightarrow> nat \<Rightarrow> string" where
  "httpMessage message status = orElse message (''HTTP '' @ showNat status)"

text \<open>
  The entry promoted from the current conditions when the forecast gives no day.
\<close>

definition synthetic :: "CurrentWeatherResponse \<Rightarrow> OneCallDaily" where
  "synthetic current = \<lparr>ocd_dt = cw_dt current, ocd_min = cw_temp current, ocd_max = cw_temp current,
                         ocd_day = cw_temp current, ocd_weather = cw_weather current\<rparr>"

text \<open>
  \<open>forecastOk && Array.isArray(forecast.list) ? forecast.list : []\<close>, and the part of
  \<open>fetchWeatherFree\<close> after both bodies are parsed.
\<close>

definition forecastListOf :: "ForecastResponse \<Rightarrow> ForecastItem list" where
  "forecastListOf forecast =
     (let forecastOk = codOk (fr_cod forecast) in
      if forecastOk then (case fr_list forecast of Some l \<Rightarrow> l | None \<Rightarrow> []) else [])"

definition mergePayloads :: "CurrentWeatherResponse \<Rightarrow> ForecastResponse \<Rightarrow> exn + OneCallResponse" where
  "mergePayloads current forecast =
     (let currentOk = codOk (cw_cod current) in
      if \<not> currentOk then Inl (Error (orElse (cw_message current) ''Current weather request failed''))
      else
        (let forecastList = forecastListOf forecast;
             timezoneOffset =
               (case cw_timezone current of
                  Some t \<Rightarrow> t
                | None \<Rightarrow> (case fr_city_timezone forecast of Some t \<Rightarrow> t | None \<Rightarrow> 0));
             daily = aggregate forecastList
         in Inr \<lparr>ocr_lat = cw_coord_lat current,
                 ocr_lon = cw_coord_lon current,
                 ocr_timezone = [],
                 ocr_timezone_offset = timezoneOffset,
                 ocr_current =
                   \<lparr>occ_dt = cw_dt current,
                    occ_sunrise = cw_sunrise current,
                    occ_sunset = cw_sunset current,
                    occ_temp = cw_temp current,
                    occ_feels_like = cw_feels_like current,
                    occ_humidity = cw_humidity current,
                    occ_wind_speed = cw_wind_speed current,
                    occ_weather = cw_weather current\<rparr>,
                 ocr_daily = (if daily \<noteq> [] then daily else [synthetic current])\<rparr>))"

text \<open>
  \<open>fetchWeatherFree\<close>. \<open>Promise.all\<close> rejects as soon as one of the two requests
  rejects; when both do, the model reports the rejection of the first of the array.
  A response that is not \<open>ok\<close> is thrown for either leg, before any body is looked at
  for its in-body status.
\<close>

definition fetchWeatherFree :: "Env \<Rightarrow> real \<Rightarrow> real \<Rightarrow> Units \<Rightarrow> exn + OneCallResponse" where
  "fetchWeatherFree env lat lon unts =
     (let apiKey = trim (OPENWEATHER_API_KEY env) in
      if apiKey = [] \<or> length apiKey < 20
      then Inl (Error ''API key appears to be invalid or missing'')
      else
        (case (net_current env lat lon unts, net_forecast env lat lon unts) of
           (Rejected err, _) \<Rightarrow> Inl err
         | (_, Rejected err) \<Rightarrow> Inl err
         | (Response currentStatus currentJson, Response forecastStatus forecastJson) \<Rightarrow>
             if \<not> ok currentStatus then
               (let msg = httpMessage (case currentJson of Inl _ \<Rightarrow> None | Inr b \<Rightarrow> cw_message b) currentStatus
                in if currentStatus = 401
                   then Inl (Error (''Invalid API key: '' @ msg
                          @ ''. Check your key at https://home.openweathermap.org/api_keys''))
                   else Inl (Error msg))
             else if \<not> ok forecastStatus then
               (let msg = httpMessage (case forecastJson of Inl _ \<Rightarrow> None | Inr b \<Rightarrow> fr_message b) forecastStatus
                in Inl (Error msg))
             else
               (case currentJson of
                  Inl err \<Rightarrow> Inl err
                | Inr current \<Rightarrow>
                    (case forecastJson of
                       Inl err \<Rightarrow> Inl err
                     | Inr forecast \<Rightarrow> mergePayloads current forecast))))"

definition fetchOneCall :: "Env \<Rightarrow> real \<Rightarrow> real \<Rightarrow> Units \<Rightarrow> exn + OneCallResponse" where
  "fetchOneCall env lat lon unts = fetchWeatherFree env lat lon unts"

definition buildLocationLabel :: "GeocodingResult option \<Rightarrow> string option \<Rightarrow> string" where
  "buildLocationLabel g fallback =
     (case g of
        Some gr \<Rightarrow>
          join '', ''
            ([geo_name gr]
             @ (case geo_state gr of
                  Some st \<Rightarrow> (if st \<noteq> [] \<and> st \<noteq> geo_name gr then [st] else [])
                | None \<Rightarrow> [])
             @ (case geo_country gr of
                  Some c \<Rightarrow> (if c \<noteq> [] then [c] else [])
                | None \<Rightarrow> []))
      | None \<Rightarrow> (case fallback of Some f \<Rightarrow> f | None \<Rightarrow> ''Current location''))"

section \<open>The hook \<open>useWeather\<close>\<close>

text \<open>
  The seven state cells of the hook. The cell \<open>error\<close> is named \<open>error_msg\<close> here,
  the name \<open>error\<close> being the fourth fetch state.
\<close>

record HookState =
  units :: Units
  searchQuery :: string
  searchMode :: SearchMode
  backgroundKind :: BackgroundKind
  fetchState :: FetchState
  error_msg :: "string option"
  weather :: "ResolvedWeather option"

definition initialState :: HookState where
  "initialState = \<lparr>units = metric, searchQuery = [], searchMode = city, backgroundKind = cloudy,
                    fetchState = idle, error_msg = None, weather = None\<rparr>"

text \<open>
  What a handler does, in the order it does it: calls of the state setters, and calls
  that leave the hook (the three network functions and the geolocation request). A
  handler is the list of its effects; the state it leaves is the setters applied in
  order to the state it started from.
\<close>

datatype Event =
    SetUnits Units
  | SetSearchQuery string
  | SetSearchMode SearchMode
  | SetBackgroundKind BackgroundKind
  | SetFetchState FetchState
  | SetError "string option"
  | SetWeather ResolvedWeather
  | CallGeocodeCity string
  | CallFetchOneCall real real Units
  | CallReverseGeocode real real
  | CallGetCurrentPosition

fun applyEvent :: "HookState \<Rightarrow> Event \<Rightarrow> HookState" where
  "applyEvent s (SetUnits u) = s\<lparr>units := u\<rparr>"
| "applyEvent s (SetSearchQuery q) = s\<lparr>searchQuery := q\<rparr>"
| "applyEvent s (SetSearchMode m) = s\<lparr>searchMode := m\<rparr>"
| "applyEvent s (SetBackgroundKind b) = s\<lparr>backgroundKind := b\<rparr>"
| "applyEvent s (SetFetchState f) = s\<lparr>fetchState := f\<rparr>"
| "applyEvent s (SetError e) = s\<lparr>error_msg := e\<rparr>"
| "applyEvent s (SetWeather w) = s\<lparr>weather := Some w\<rparr>"
| "applyEvent s (CallGeocodeCity q) = s"
| "applyEvent s (CallFetchOneCall lat lon u) = s"
| "applyEvent s (CallReverseGeocode lat lon) = s"
| "applyEvent s CallGetCurrentPosition = s"

definition run :: "HookState \<Rightarrow> Event list \<Rightarrow> HookState" where
  "run s evs = foldl applyEvent s evs"

fun isNetworkCall :: "Event \<Rightarrow> bool" where
  "isNetworkCall (CallGeocodeCity q) = True"
| "isNetworkCall (CallFetchOneCall lat lon u) = True"
| "isNetworkCall (CallReverseGeocode lat lon) = True"
| "isNetworkCall _ = False"

text \<open>
  The body of a \<open>try\<close> block gives the effects it got to and, when it threw, the error.
\<close>

type_synonym Attempt = "Event list \<times> exn option"

text \<open>\<open>try { ... } catch (err) { ... }\<close>: the effects of the body, then those of the
  \<open>catch\<close> block when the body threw.\<close>

definition catching :: "Attempt \<Rightarrow> (exn \<Rightarrow> Event list) \<Rightarrow> Event list" where
  "catching body handler =
     (case body of
        (evs, None) \<Rightarrow> evs
      | (evs, Some err) \<Rightarrow> evs @ handler err)"

text \<open>
  The lines every success path repeats:
  \<open>const head = oneCall.current.weather[0]\<close>,
  \<open>setBackgroundKind(classifyBackground(head.main, head.id))\<close>, \<open>setWeather({...})\<close>,
  \<open>setFetchState('success')\<close>. On an empty array \<open>head\<close> is \<open>undefined\<close> and
  \<open>head.main\<close>, evaluated before any setter is called, throws.
\<close>

definition snapshot :: "string \<Rightarrow> string option \<Rightarrow> OneCallResponse \<Rightarrow> ResolvedWeather" where
  "snapshot name country oneCall =
     \<lparr>locationName = name,
      countryCode = country,
      rw_current = ocr_current oneCall,
      rw_daily = ocr_daily oneCall,
      timezoneOffset = ocr_timezone_offset oneCall,
      rw_lat = ocr_lat oneCall,
      rw_lon = ocr_lon oneCall\<rparr>"

definition showWeather :: "string \<Rightarrow> string option \<Rightarrow> OneCallResponse \<Rightarrow> Attempt" where
  "showWeather name country oneCall =
     (case occ_weather (ocr_current oneCall) of
        [] \<Rightarrow> ([], Some (undefinedProperty ''main''))
      | head # _ \<Rightarrow>
          ([SetBackgroundKind (classifyBackground (w_main head) (w_id head)),
            SetWeather (snapshot name country oneCall),
            SetFetchState success], None))"

subsection \<open>\<open>handleUnitsChange\<close>\<close>

definition handleUnitsChange_try :: "Env \<Rightarrow> ResolvedWeather \<Rightarrow> Units \<Rightarrow> Attempt" where
  "handleUnitsChange_try env w next =
     (let before = [SetFetchState loading, SetError None, CallFetchOneCall (rw_lat w) (rw_lon w) next] in
      case fetchOneCall env (rw_lat w) (rw_lon w) next of
        Inl err \<Rightarrow> (before, Some err)
      | Inr fresh \<Rightarrow>
          (case showWeather (locationName w) (countryCode w) fresh of
             (evs, r) \<Rightarrow> (before @ evs, r)))"

definition handleUnitsChange :: "Env \<Rightarrow> HookState \<Rightarrow> Units \<Rightarrow> Event list" where
  "handleUnitsChange env s next =
     (if next = units s then []
      else SetUnits next #
        (case weather s of
           None \<Rightarrow> []
         | Some w \<Rightarrow>
             catching (handleUnitsChange_try env w next)
               (\<lambda>err. [SetFetchState error,
                       SetError (Some ''Unable to refresh weather for the new unit.'')])))"

subsection \<open>The effect run at mount\<close>

definition mountPosition_try :: "Env \<Rightarrow> HookState \<Rightarrow> real \<Rightarrow> real \<Rightarrow> Attempt" where
  "mountPosition_try env s latitude longitude =
     (let before = [CallFetchOneCall latitude longitude (units s)] in
      case fetchOneCall env latitude longitude (units s) of
        Inl err \<Rightarrow> (before, Some err)
      | Inr oneCall \<Rightarrow>
          (case reverseGeocode env latitude longitude of
             Inl err \<Rightarrow> (before @ [CallReverseGeocode latitude longitude], Some err)
           | Inr g \<Rightarrow>
               (case showWeather (buildLocationLabel g (Some ''Current location''))
                       (case g of None \<Rightarrow> None | Some gr \<Rightarrow> geo_country gr) oneCall of
                  (evs, r) \<Rightarrow> (before @ [CallReverseGeocode latitude longitude] @ evs, r))))"

definition mountPosition :: "Env \<Rightarrow> HookState \<Rightarrow> real \<Rightarrow> real \<Rightarrow> Event list" where
  "mountPosition env s latitude longitude =
     catching (mountPosition_try env s latitude longitude)
       (\<lambda>err. [SetFetchState error,
               SetError (Some (orElse (Some (err_message err)) ''Unable to get weather for your location.''
                               @ '' Please search for a city instead.''))])"

definition loadDefaultCity_try :: "Env \<Rightarrow> HookState \<Rightarrow> Attempt" where
  "loadDefaultCity_try env s =
     (let before = [SetFetchState loading, CallGeocodeCity ''New York''] in
      case geocodeCity env ''New York'' of
        Inl err \<Rightarrow> (before, Some err)
      | Inr None \<Rightarrow> (before @ [SetFetchState idle], None)
      | Inr (Some g) \<Rightarrow>
          (let called = before @ [CallFetchOneCall (geo_lat g) (geo_lon g) (units s)] in
           case fetchOneCall env (geo_lat g) (geo_lon g) (units s) of
             Inl err \<Rightarrow> (called, Some err)
           | Inr oneCall \<Rightarrow>
               (case showWeather (buildLocationLabel (Some g) (Some (geo_name g))) (geo_country g) oneCall of
                  (evs, r) \<Rightarrow> (called @ evs, r))))"

definition loadDefaultCity :: "Env \<Rightarrow> HookState \<Rightarrow> Event list" where
  "loadDefaultCity env s =
     catching (loadDefaultCity_try env s)
       (\<lambda>err. [SetFetchState idle,
               SetError (Some (''Unable to load default city: ''
                               @ orElse (Some (err_message err)) ''Unknown error''))])"

text \<open>
  The request at mount carries \<open>timeout: 8000\<close>, so a position that never comes ends in
  the error callback; the request of \<open>refreshWithGeo\<close> carries no timeout.
\<close>

definition onMount :: "Env \<Rightarrow> HookState \<Rightarrow> Event list" where
  "onMount env s =
     (case geolocation env of
        None \<Rightarrow> []
      | Some outcome \<Rightarrow>
          [SetFetchState loading, SetSearchMode geo, CallGetCurrentPosition]
          @ (case outcome of
               Position latitude longitude \<Rightarrow> mountPosition env s latitude longitude
             | PositionError \<Rightarrow> loadDefaultCity env s
             | NoAnswer \<Rightarrow> loadDefaultCity env s))"

subsection \<open>\<open>searchByCity\<close>\<close>

definition searchByCity_try :: "Env \<Rightarrow> HookState \<Rightarrow> Attempt" where
  "searchByCity_try env s =
     (let before = [SetFetchState loading, SetError None, CallGeocodeCity (trim (searchQuery s))] in
      case geocodeCity env (trim (searchQuery s)) of
        Inl err \<Rightarrow> (before, Some err)
      | Inr None \<Rightarrow>
          (before @ [SetFetchState error, SetError (Some ''No results for that city. Try another name.'')],
           None)
      | Inr (Some g) \<Rightarrow>
          (let called = before @ [CallFetchOneCall (geo_lat g) (geo_lon g) (units s)] in
           case fetchOneCall env (geo_lat g) (geo_lon g) (units s) of
             Inl err \<Rightarrow> (called, Some err)
           | Inr oneCall \<Rightarrow>
               (case showWeather (buildLocationLabel (Some g) (Some (geo_name g))) (geo_country g) oneCall of
                  (evs, None) \<Rightarrow> (called @ evs @ [SetSearchMode city], None)
                | (evs, Some err) \<Rightarrow> (called @ evs, Some err))))"

definition searchByCity :: "Env \<Rightarrow> HookState \<Rightarrow> Event list" where
  "searchByCity env s =
     (if trim (searchQuery s) = [] then [SetError (Some ''Please enter a city name'')]
      else
        catching (searchByCity_try env s)
          (\<lambda>err. [SetFetchState error,
                  SetError (Some (orElse (Some (err_message err)) ''Unable to fetch weather for that city.''))]))"

subsection \<open>\<open>refreshWithGeo\<close>\<close>

definition refreshPosition_try :: "Env \<Rightarrow> HookState \<Rightarrow> real \<Rightarrow> real \<Rightarrow> Attempt" where
  "refreshPosition_try env s latitude longitude =
     (let before = [CallFetchOneCall latitude longitude (units s)] in
      case fetchOneCall env latitude longitude (units s) of
        Inl err \<Rightarrow> (before, Some err)
      | Inr oneCall \<Rightarrow>
          (case showWeather (buildLocationLabel None (Some ''Current location'')) None oneCall of
             (evs, r) \<Rightarrow> (before @ evs, r)))"

definition refreshPosition :: "Env \<Rightarrow> HookState \<Rightarrow> real \<Rightarrow> real \<Rightarrow> Event list" where
  "refreshPosition env s latitude longitude =
     catching (refreshPosition_try env s latitude longitude)
       (\<lambda>err. [SetFetchState error, SetError (Some ''Unable to refresh weather for your location.'')])"

definition refreshWithGeo :: "Env \<Rightarrow> HookState \<Rightarrow> Event list" where
  "refreshWithGeo env s =
     (case geolocation env of
        None \<Rightarrow> [SetError (Some ''Geolocation is not available in this browser.''), SetFetchState error]
      | Some outcome \<Rightarrow>
          [SetFetchState loading, SetError None, SetSearchMode geo, CallGetCurrentPosition]
          @ (case outcome of
               Position latitude longitude \<Rightarrow> refreshPosition env s latitude longitude
             | PositionError \<Rightarrow> [SetFetchState error, SetError (Some ''Location access was denied.'')]
             | NoAnswer \<Rightarrow> []))"

subsection \<open>What the hook exposes\<close>

text \<open>
  The intents of the object \<open>useWeather\<close> returns (\<open>setUnits\<close> is
  \<open>handleUnitsChange\<close>), and the effect run once at mount.
\<close>

datatype Intent =
    Mount
  | ChangeUnits Units
  | TypeQuery string
  | SearchByCity
  | RefreshWithGeo

fun perform :: "Env \<Rightarrow> HookState \<Rightarrow> Intent \<Rightarrow> Event list" where
  "perform env s Mount = onMount env s"
| "perform env s (ChangeUnits next) = handleUnitsChange env s next"
| "perform env s (TypeQuery q) = [SetSearchQuery q]"
| "perform env s SearchByCity = searchByCity env s"
| "perform env s RefreshWithGeo = refreshWithGeo env s"

definition after :: "Env \<Rightarrow> HookState \<Rightarrow> Intent \<Rightarrow> HookState" where
  "after env s i = run s (perform env s i)"

section \<open>Concrete inputs\<close>

text \<open>
  A key of the length the source accepts, a place, a current-conditions payload, a
  forecast of four samples over two UTC days, and environments built from them.
\<close>

definition demoKey :: string where
  "demoKey = ''0123456789abcdef0123456789abcdef''"

definition paris :: GeocodingResult where
  "paris = \<lparr>geo_name = ''Paris'', geo_lat = 48.85, geo_lon = 2.35,
            geo_country = Some ''FR'', geo_state = None\<rparr>"

definition newYork :: GeocodingResult where
  "newYork = \<lparr>geo_name = ''New York'', geo_lat = 40.71, geo_lon = -74.01,
              geo_country = Some ''US'', geo_state = Some ''New York''\<rparr>"

definition clearSky :: WeatherEntry where
  "clearSky = \<lparr>w_id = 800, w_main = ''Clear'', w_description = ''clear sky'', w_icon = ''01d''\<rparr>"

definition lightRain :: WeatherEntry where
  "lightRain = \<lparr>w_id = 500, w_main = ''Rain'', w_description = ''light rain'', w_icon = ''10d''\<rparr>"

definition parisNow :: CurrentWeatherResponse where
  "parisNow = \<lparr>cw_coord_lat = 48.85, cw_coord_lon = 2.35, cw_weather = [clearSky],
               cw_temp = 18, cw_feels_like = 17, cw_humidity = 60, cw_wind_speed = 3,
               cw_sunrise = 1700030000, cw_sunset = 1700060000, cw_dt = 1700040000,
               cw_timezone = Some 3600, cw_cod = Some (CodNum 200), cw_message = None\<rparr>"

definition fourSamples :: "ForecastItem list" where
  "fourSamples =
     [\<lparr>fi_dt = 1700049600, fi_temp = 17, fi_temp_min = 15, fi_temp_max = 18, fi_weather = [clearSky]\<rparr>,
      \<lparr>fi_dt = 1700060400, fi_temp = 14, fi_temp_min = 12, fi_temp_max = 16, fi_weather = [lightRain]\<rparr>,
      \<lparr>fi_dt = 1700092800, fi_temp = 11, fi_temp_min = 10, fi_temp_max = 12, fi_weather = [lightRain]\<rparr>,
      \<lparr>fi_dt = 1700103600, fi_temp = 13, fi_temp_min = 9, fi_temp_max = 19, fi_weather = [clearSky]\<rparr>]"

definition parisForecast :: ForecastResponse where
  "parisForecast = \<lparr>fr_list = Some fourSamples, fr_city_timezone = Some 3600,
                    fr_cod = Some (CodStr ''200''), fr_message = None\<rparr>"

text \<open>The forecast body of a request the provider refuses: no list, a failing \<open>cod\<close>.\<close>

definition refusedForecast :: ForecastResponse where
  "refusedForecast = \<lparr>fr_list = None, fr_city_timezone = None,
                      fr_cod = Some (CodStr ''429''), fr_message = Some ''too many requests''\<rparr>"

definition envWith :: "CurrentWeatherResponse Fetched \<Rightarrow> ForecastResponse Fetched \<Rightarrow> Env" where
  "envWith cur fc = \<lparr>OPENWEATHER_API_KEY = demoKey,
                     net_geocode = (\<lambda>q. Response 200 (Inr (GeoArray
                        (if q = ''Paris'' then [paris] else if q = ''New York'' then [newYork] else [])))),
                     net_reverse = (\<lambda>lat lon. Rejected (TypeError ''Failed to fetch'')),
                     net_current = (\<lambda>lat lon u. cur),
                     net_forecast = (\<lambda>lat lon u. fc),
                     geolocation = Some (Position 48.85 2.35)\<rparr>"

text \<open>Both legs answer; the forecast leg answers HTTP 429; the forecast leg answers
  HTTP 200 with a failing in-body status; the current conditions carry no condition.\<close>

definition envOk :: Env where
  "envOk = envWith (Response 200 (Inr parisNow)) (Response 200 (Inr parisForecast))"

definition envForecastHttpDown :: Env where
  "envForecastHttpDown = envWith (Response 200 (Inr parisNow)) (Response 429 (Inr refusedForecast))"

definition envForecastCodDown :: Env where
  "envForecastCodDown = envWith (Response 200 (Inr parisNow)) (Response 200 (Inr refusedForecast))"

definition envNoCondition :: Env where
  "envNoCondition = envWith (Response 200 (Inr (parisNow\<lparr>cw_weather := []\<rparr>)))
                            (Response 200 (Inr refusedForecast))"

definition envAllDown :: Env where
  "envAllDown = envWith (Rejected (TypeError ''Failed to fetch'')) (Rejected (TypeError ''Failed to fetch''))"

text \<open>
  States: a query typed and nothing shown yet, a query of blanks, and Paris shown in
  metric units with the single day promoted from the current conditions.
\<close>

definition typedParis :: HookState where
  "typedParis = initialState\<lparr>searchQuery := ''Paris''\<rparr>"

definition typedBlanks :: HookState where
  "typedBlanks = initialState\<lparr>searchQuery := ''   ''\<rparr>"

definition parisToday :: OneCallDaily where
  "parisToday = \<lparr>ocd_dt = 1700040000, ocd_min = 18, ocd_max = 18, ocd_day = 18,
                 ocd_weather = [clearSky]\<rparr>"

definition parisOneCall :: OneCallResponse where
  "parisOneCall =
     \<lparr>ocr_lat = 48.85, ocr_lon = 2.35, ocr_timezone = [], ocr_timezone_offset = 3600,
      ocr_current = \<lparr>occ_dt = 1700040000, occ_sunrise = 1700030000, occ_sunset = 1700060000,
                     occ_temp = 18, occ_feels_like = 17, occ_humidity = 60, occ_wind_speed = 3,
                     occ_weather = [clearSky]\<rparr>,
      ocr_daily = [parisToday]\<rparr>"

definition parisSnapshot :: ResolvedWeather where
  "parisSnapshot = snapshot ''Paris, FR'' (Some ''FR'') parisOneCall"

text \<open>What the fetcher returns when the current conditions list no condition.\<close>

definition bareOneCall :: OneCallResponse where
  "bareOneCall =
     parisOneCall\<lparr>ocr_current := (ocr_current parisOneCall)\<lparr>occ_weather := []\<rparr>,
                  ocr_daily := [parisToday\<lparr>ocd_weather := []\<rparr>]\<rparr>"

definition parisShown :: HookState where
  "parisShown = \<lparr>units = metric, searchQuery = ''Paris'', searchMode = city, backgroundKind = sunny,
                  fetchState = success, error_msg = None, weather = Some parisSnapshot\<rparr>"

text \<open>
  The accumulator of a day's samples, for the proofs: the fields of \<open>summary\<close> as a
  \<open>DayAcc\<close>. And what a trace that reaches \<open>success\<close> has done: it fetched, the
  current conditions it got list a condition, and it leaves the snapshot built from
  them shown in state \<open>success\<close>.
\<close>

definition accOf :: "ForecastItem list \<Rightarrow> DayAcc" where
  "accOf g = \<lparr>a_dt = fi_dt (hd g),
              a_min = Min (set (map fi_temp_min g)),
              a_max = Max (set (map fi_temp_max g)),
              a_day = fi_temp (last g),
              a_weather = fi_weather (last g)\<rparr>"

definition showsFresh :: "Env \<Rightarrow> Event list \<Rightarrow> bool" where
  "showsFresh env evs =
     (\<exists>lat lon u oc n c.
        CallFetchOneCall lat lon u \<in> set evs \<and> fetchOneCall env lat lon u = Inr oc \<and>
        occ_weather (ocr_current oc) \<noteq> [] \<and>
        (\<forall>s0. weather (run s0 evs) = Some (snapshot n c oc) \<and> fetchState (run s0 evs) = success))"

section \<open>Properties of the classifier\<close>

text \<open>
  C2. The classifier is total into the five background kinds and follows the
  precedence table, first match wins: codes in [200,300) give storm whatever the text
  says, [600,700) snow, [500,600) rain, 800, 801 and 802 sunny, 803 and 804 cloudy;
  otherwise the text decides (Drizzle or Rain, Snow, Thunderstorm), and everything
  else is cloudy.
\<close>

theorem classifyBackground_table:
  "classifyBackground weatherMain code = classify_table code weatherMain
   \<and> classifyBackground weatherMain code \<in> {sunny, rain, snow, storm, cloudy}"
proof
  show "classifyBackground weatherMain code = classify_table code weatherMain"
    unfolding classifyBackground_def classify_table_def by auto
  show "classifyBackground weatherMain code \<in> {sunny, rain, snow, storm, cloudy}"
    by (cases "classifyBackground weatherMain code") simp_all
qed

section \<open>Properties of the day key\<close>

text \<open>
  The year function meets the standard's definition: the first day of the year it gives
  is not after the day, the first day of the next year is, and no later year starts on
  or before the day.
\<close>

lemma div_bounds: "0 < c \<Longrightarrow> c * (x div c) \<le> (x::int) \<and> x < c * (x div c) + c"
  by (metis add.commute add_le_cancel_left add_less_cancel_left mult_div_mod_eq pos_mod_bound pos_mod_sign add_0)

lemma DayFromYear_estimate:
  fixes e day :: int
  assumes "146097 * e \<le> 400 * day" "400 * day < 146097 * e + 146097"
  shows "DayFromYear (1970 + e - 1) \<le> day" "day < DayFromYear (1970 + e + 2)"
proof -
  note b = div_bounds [of 4 "e"] div_bounds [of 100 "e + 68"] div_bounds [of 400 "e + 368"]
    div_bounds [of 4 "e + 3"] div_bounds [of 100 "e + 71"] div_bounds [of 400 "e + 371"]
  show "DayFromYear (1970 + e - 1) \<le> day"
    using assms b unfolding DayFromYear_def by simp
  show "day < DayFromYear (1970 + e + 2)"
    using assms b unfolding DayFromYear_def by simp
qed

lemma YearFromDay_bounds:
  "DayFromYear (YearFromDay day) \<le> day \<and> day < DayFromYear (YearFromDay day + 1)"
proof -
  define e where "e = (day * 400) div 146097"
  have "146097 * e \<le> 400 * day" "400 * day < 146097 * e + 146097"
    using div_bounds [of 146097 "day * 400"] by (simp_all add: e_def)
  from DayFromYear_estimate [OF this]
  have lo: "DayFromYear (1970 + e - 1) \<le> day" and hi: "day < DayFromYear (1970 + e + 2)" .
  have hi': "day < DayFromYear (1970 + e + 1 + 1)" using hi by (simp add: add.assoc)
  show ?thesis
    unfolding YearFromDay_def Let_def e_def [symmetric]
    using lo hi' by auto
qed

lemma month_roundtrip: "0 \<le> leap \<Longrightarrow> leap \<le> 1 \<Longrightarrow>
   monthStart (MonthFromDay w leap) leap + DateFromDay w leap - 1 = w"
  by (simp add: monthStart_def MonthFromDay_def DateFromDay_def Let_def)


lemma InLeapYear_range: "0 \<le> InLeapYear y \<and> InLeapYear y \<le> 1"
  by (simp add: InLeapYear_def)

lemma DayFromYear_mono: "y < y' \<Longrightarrow> DayFromYear y < DayFromYear y'"
proof -
  assume "y < y'"
  note b = div_bounds [of 4 "y - 1969"] div_bounds [of 4 "y' - 1969"]
    div_bounds [of 100 "y - 1901"] div_bounds [of 100 "y' - 1901"]
    div_bounds [of 400 "y - 1601"] div_bounds [of 400 "y' - 1601"]
  show ?thesis using \<open>y < y'\<close> b unfolding DayFromYear_def by simp
qed

lemma YearFromDay_largest: "DayFromYear y \<le> day \<Longrightarrow> y \<le> YearFromDay day"
proof (rule ccontr)
  assume a: "DayFromYear y \<le> day" and "\<not> y \<le> YearFromDay day"
  then have "YearFromDay day + 1 \<le> y" by simp
  then have "DayFromYear (YearFromDay day + 1) \<le> DayFromYear y"
    using DayFromYear_mono [of "YearFromDay day + 1" y] by (cases "YearFromDay day + 1 = y") auto
  with a YearFromDay_bounds [of day] show False by simp
qed

lemma dayOfFields_utcFields: "dayOfFields (utcFields day) = day"
  using month_roundtrip [of "InLeapYear (YearFromDay day)" "day - DayFromYear (YearFromDay day)"]
    InLeapYear_range [of "YearFromDay day"]
  by (simp add: dayOfFields_def utcFields_def Let_def)

text \<open>
  A year has 365 days and one more in a leap year, so the fields are a calendar date:
  a month from 0 to 11 and a day of month from 1 to 31.
\<close>

lemma div_succ:
  fixes x c :: int
  assumes "0 < c"
  shows "(x + 1) div c = x div c + (if (x + 1) mod c = 0 then 1 else 0)"
proof (cases "x mod c + 1 < c")
  case True
  have r: "0 \<le> x mod c + 1" using assms by (simp add: add_nonneg_nonneg)
  have e: "x + 1 = c * (x div c) + (x mod c + 1)" by simp
  have d: "(x + 1) div c = x div c" using e r True by (rule int_div_pos_eq)
  have m: "(x + 1) mod c = x mod c + 1" using e r True by (rule int_mod_pos_eq)
  have "x mod c + 1 \<noteq> 0" using assms pos_mod_sign [of c x] by linarith
  with d m show ?thesis by simp
next
  case False
  then have full: "x mod c + 1 = c" using assms pos_mod_bound [of c x] by linarith
  have "c * (x div c) + x mod c = x" by simp
  then have "x + 1 = c * (x div c) + c" using full by linarith
  then have e: "x + 1 = c * (x div c + 1) + 0" by (simp add: distrib_left)
  have d: "(x + 1) div c = x div c + 1" using e _ assms by (rule int_div_pos_eq) simp
  have m: "(x + 1) mod c = 0" using e _ assms by (rule int_mod_pos_eq) simp
  with d show ?thesis by simp
qed

lemma shift4: "(y - 1968) mod 4 = y mod (4::int)"
proof -
  have "(y - 1968) mod 4 = (y - 1968 mod 4) mod 4" by (rule mod_diff_right_eq [symmetric])
  then show ?thesis by simp
qed

lemma shift100: "(y - 1900) mod 100 = y mod (100::int)"
proof -
  have "(y - 1900) mod 100 = (y - 1900 mod 100) mod 100" by (rule mod_diff_right_eq [symmetric])
  then show ?thesis by simp
qed

lemma shift400: "(y - 1600) mod 400 = y mod (400::int)"
proof -
  have "(y - 1600) mod 400 = (y - 1600 mod 400) mod 400" by (rule mod_diff_right_eq [symmetric])
  then show ?thesis by simp
qed

lemma mod100_4: "y mod 100 = 0 \<Longrightarrow> y mod (4::int) = 0"
proof -
  assume "y mod 100 = 0"
  then have "100 dvd y" by (simp add: mod_eq_0_iff_dvd)
  moreover have "(4::int) dvd 100" by simp
  ultimately have "4 dvd y" by (rule dvd_trans [rotated])
  then show ?thesis by (simp add: mod_eq_0_iff_dvd)
qed

lemma mod400_100: "y mod 400 = 0 \<Longrightarrow> y mod (100::int) = 0"
proof -
  assume "y mod 400 = 0"
  then have "400 dvd y" by (simp add: mod_eq_0_iff_dvd)
  moreover have "(100::int) dvd 400" by simp
  ultimately have "100 dvd y" by (rule dvd_trans [rotated])
  then show ?thesis by (simp add: mod_eq_0_iff_dvd)
qed

lemma DayFromYear_Suc: "DayFromYear (y + 1) = DayFromYear y + 365 + InLeapYear y"
proof -
  have s4: "(y - 1968) div 4 = (y - 1969) div 4 + (if y mod 4 = 0 then 1 else 0)"
    using div_succ [of 4 "y - 1969"] shift4 [of y] by simp
  have s100: "(y - 1900) div 100 = (y - 1901) div 100 + (if y mod 100 = 0 then 1 else 0)"
    using div_succ [of 100 "y - 1901"] shift100 [of y] by simp
  have s400: "(y - 1600) div 400 = (y - 1601) div 400 + (if y mod 400 = 0 then 1 else 0)"
    using div_succ [of 400 "y - 1601"] shift400 [of y] by simp
  have "DayFromYear (y + 1) =
          365 * (y - 1969) + (y - 1968) div 4 - (y - 1900) div 100 + (y - 1600) div 400"
    by (simp add: DayFromYear_def)
  also have "\<dots> = DayFromYear y + 365 + InLeapYear y"
    unfolding s4 s100 s400 DayFromYear_def InLeapYear_def
    using mod100_4 [of y] mod400_100 [of y] by auto
  finally show ?thesis .
qed

lemma utcFields_calendar:
  assumes "utcFields day = (y, m, d)"
  shows "0 \<le> m \<and> m \<le> 11 \<and> 1 \<le> d \<and> d \<le> 31"
proof -
  define l where "l = InLeapYear (YearFromDay day)"
  define w where "w = day - DayFromYear (YearFromDay day)"
  have l: "0 \<le> l" "l \<le> 1" using InLeapYear_range by (simp_all add: l_def)
  have w0: "0 \<le> w" using YearFromDay_bounds [of day] by (simp add: w_def)
  have w1: "w < 365 + l"
    using YearFromDay_bounds [of day] DayFromYear_Suc [of "YearFromDay day"] by (simp add: w_def l_def)
  have m: "m = MonthFromDay w l" and d: "d = DateFromDay w l"
    using assms by (auto simp add: utcFields_def Let_def l_def w_def)
  show ?thesis unfolding m d MonthFromDay_def DateFromDay_def Let_def
    using l w0 w1 by simp
qed


text \<open>
  The decimal rendering can be read back, and a rendered number without sign holds no
  dash; so the three fields can be read back from the key, and with them the day.
\<close>

lemma digitVal_digitChar: "n < 10 \<Longrightarrow> digitVal (digitChar n) = n"
proof -
  assume "n < 10"
  then have "n \<in> {0, 1, 2, 3, 4, 5, 6, 7, 8, 9}" by auto
  then show ?thesis by (auto simp: digitVal_def digitChar_def)
qed

lemma digitChar_not_dash: "n < 10 \<Longrightarrow> digitChar n \<noteq> CHR ''-''"
proof -
  assume "n < 10"
  then have "n \<in> {0, 1, 2, 3, 4, 5, 6, 7, 8, 9}" by auto
  then show ?thesis by (auto simp: digitChar_def)
qed

lemma readNat_snoc: "readNat (s @ [c]) = 10 * readNat s + digitVal c"
  by (simp add: readNat_def)

lemma readNat_showNat: "readNat (showNat n) = n"
proof (induction n rule: showNat.induct)
  case (1 n)
  show ?case
  proof (cases "n < 10")
    case True
    then show ?thesis using digitVal_digitChar [of n]
      by (simp add: showNat.simps [of n] readNat_def)
  next
    case False
    have "n mod 10 < 10" by simp
    then show ?thesis using False "1.IH" digitVal_digitChar [of "n mod 10"]
      by (simp add: showNat.simps [of n] readNat_snoc)
  qed
qed

lemma showNat_no_dash: "CHR ''-'' \<notin> set (showNat n)"
proof (induction n rule: showNat.induct)
  case (1 n)
  show ?case
  proof (cases "n < 10")
    case True
    then show ?thesis using digitChar_not_dash [of n] by (simp add: showNat.simps [of n])
  next
    case False
    have "n mod 10 < 10" by simp
    then show ?thesis using False "1.IH" digitChar_not_dash [of "n mod 10"]
      by (simp add: showNat.simps [of n])
  qed
qed

lemma showNat_not_Nil: "showNat n \<noteq> []"
  by (simp add: showNat.simps [of n])

lemma showNat_inj: "showNat a = showNat b \<Longrightarrow> a = b"
  by (metis readNat_showNat)

lemma showInt_inj: "showInt a = showInt b \<Longrightarrow> a = b"
proof -
  assume e: "showInt a = showInt b"
  have neg: "\<And>i. i < 0 \<Longrightarrow> hd (showInt i) = CHR ''-''" by (simp add: showInt_def)
  have pos: "\<And>i. \<not> i < 0 \<Longrightarrow> hd (showInt i) \<noteq> CHR ''-''"
    using showNat_no_dash showNat_not_Nil by (metis showInt_def hd_in_set)
  show ?thesis
  proof (cases "a < 0")
    case True
    then have "b < 0" using neg [of a] pos [of b] e by auto
    with True e have "showNat (nat (- a)) = showNat (nat (- b))" by (simp add: showInt_def)
    then have "nat (- a) = nat (- b)" by (rule showNat_inj)
    with True \<open>b < 0\<close> show ?thesis by simp
  next
    case False
    then have "\<not> b < 0" using neg [of b] pos [of a] e by auto
    with False e have "showNat (nat a) = showNat (nat b)" by (simp add: showInt_def)
    then have "nat a = nat b" by (rule showNat_inj)
    with False \<open>\<not> b < 0\<close> show ?thesis by simp
  qed
qed

lemma showInt_no_dash: "0 \<le> i \<Longrightarrow> CHR ''-'' \<notin> set (showInt i)"
  using showNat_no_dash by (simp add: showInt_def)

lemma split_at_first:
  "c \<notin> set a \<Longrightarrow> c \<notin> set b \<Longrightarrow> a @ c # u = b @ c # v \<Longrightarrow> a = b \<and> u = v"
proof (induction a arbitrary: b)
  case Nil
  then show ?case by (cases b) auto
next
  case (Cons x a)
  then show ?case by (cases b) auto
qed

lemma split_at_last:
  assumes "c \<notin> set ys" "c \<notin> set ys'" "xs @ c # ys = xs' @ c # ys'"
  shows "xs = xs' \<and> ys = ys'"
proof -
  have "rev (xs @ c # ys) = rev (xs' @ c # ys')" using assms(3) by simp
  then have "rev ys @ c # rev xs = rev ys' @ c # rev xs'" by simp
  moreover have "c \<notin> set (rev ys)" "c \<notin> set (rev ys')" using assms(1,2) by simp_all
  ultimately have "rev ys = rev ys' \<and> rev xs = rev xs'" by (rule split_at_first [rotated 2])
  then show ?thesis by simp
qed

lemma render_inj:
  assumes "0 \<le> m" "0 \<le> d" "0 \<le> m'" "0 \<le> d'"
    "showInt y @ ''-'' @ showInt m @ ''-'' @ showInt d = showInt y' @ ''-'' @ showInt m' @ ''-'' @ showInt d'"
  shows "y = y' \<and> m = m' \<and> d = d'"
proof -
  have e: "(showInt y @ ''-'' @ showInt m) @ CHR ''-'' # showInt d
         = (showInt y' @ ''-'' @ showInt m') @ CHR ''-'' # showInt d'"
    using assms(5) by simp
  have 1: "showInt y @ ''-'' @ showInt m = showInt y' @ ''-'' @ showInt m'" and 2: "showInt d = showInt d'"
    using split_at_last [OF showInt_no_dash [OF assms(2)] showInt_no_dash [OF assms(4)] e] by simp_all
  have "showInt y @ CHR ''-'' # showInt m = showInt y' @ CHR ''-'' # showInt m'" using 1 by simp
  from split_at_last [OF showInt_no_dash [OF assms(1)] showInt_no_dash [OF assms(3)] this]
  have "showInt y = showInt y'" "showInt m = showInt m'" by simp_all
  with 2 show ?thesis by (simp add: showInt_inj)
qed

lemma keyOfDay_inj: "keyOfDay a = keyOfDay b \<Longrightarrow> a = b"
proof -
  assume e: "keyOfDay a = keyOfDay b"
  obtain y m d where fa: "utcFields a = (y, m, d)" by (cases "utcFields a")
  obtain y' m' d' where fb: "utcFields b = (y', m', d')" by (cases "utcFields b")
  have "y = y' \<and> m = m' \<and> d = d'"
    using utcFields_calendar [OF fa] utcFields_calendar [OF fb] e
    by (intro render_inj) (simp_all add: keyOfDay_def fa fb)
  then have "utcFields a = utcFields b" by (simp add: fa fb)
  then have "dayOfFields (utcFields a) = dayOfFields (utcFields b)" by simp
  then show ?thesis by (simp only: dayOfFields_utcFields)
qed

lemma day_of_seconds: "(dt * 1000) div 86400000 = dt div (86400::int)"
proof -
  have "(dt * 1000) div (86400 * 1000) = dt div (86400::int)"
    by (rule div_mult_mult2) simp
  then show ?thesis by simp
qed

text \<open>
  Two timestamps inside the range of valid dates get the same key exactly when they lie
  on the same UTC day.
\<close>

lemma utcDayKey_iff:
  assumes "validTime (a * 1000)" "validTime (b * 1000)"
  shows "utcDayKey a = utcDayKey b \<longleftrightarrow> a div 86400 = b div 86400"
  using assms keyOfDay_inj [of "a div 86400" "b div 86400"]
  by (auto simp: utcDayKey_def Let_def Day_def day_of_seconds)

section \<open>Properties of the aggregation\<close>

text \<open>
  First-seen order, and the association list under the loop's two kinds of update.
\<close>

lemma set_firstSeen: "set (firstSeen xs) = set xs"
  by (induction xs) auto

lemma distinct_firstSeen: "distinct (firstSeen xs)"
  by (induction xs) (auto simp: set_firstSeen)

lemma firstSeen_snoc:
  "firstSeen (xs @ [y]) = (if y \<in> set xs then firstSeen xs else firstSeen xs @ [y])"
  by (induction xs) (auto simp: set_firstSeen)

lemma toDaily_accOf: "toDaily (accOf g) = summary g"
  by (simp add: toDaily_def accOf_def summary_def)

lemma accOf_single:
  "accOf [x] = \<lparr>a_dt = fi_dt x, a_min = fi_temp_min x, a_max = fi_temp_max x, a_day = fi_temp x,
                a_weather = fi_weather x\<rparr>"
  by (simp add: accOf_def)

lemma accOf_snoc:
  "g \<noteq> [] \<Longrightarrow>
   accOf (g @ [x]) = (accOf g)\<lparr>a_min := min (a_min (accOf g)) (fi_temp_min x),
                               a_max := max (a_max (accOf g)) (fi_temp_max x),
                               a_day := fi_temp x, a_weather := fi_weather x\<rparr>"
  by (simp add: accOf_def min.commute max.commute)

lemma map_of_keyed:
  "map_of (map (\<lambda>k. (k, f k)) ks) k = (if k \<in> set ks then Some (f k) else None)"
  by (induction ks) auto

lemma update_keyed_new:
  "k \<notin> set ks \<Longrightarrow> AList.update k v (map (\<lambda>k. (k, f k)) ks) = map (\<lambda>k. (k, f k)) ks @ [(k, v)]"
  by (induction ks) auto

lemma update_keyed_old:
  "k \<in> set ks \<Longrightarrow> distinct ks \<Longrightarrow>
   AList.update k v (map (\<lambda>k. (k, f k)) ks) = map (\<lambda>j. (j, if j = k then v else f j)) ks"
  by (induction ks) auto

lemma samplesOf_snoc:
  "samplesOf k (xs @ [x]) = (if dayKeyOf x = k then samplesOf k xs @ [x] else samplesOf k xs)"
  by (simp add: samplesOf_def)

lemma samplesOf_empty: "samplesOf k xs = [] \<longleftrightarrow> k \<notin> set (map dayKeyOf xs)"
  by (auto simp: samplesOf_def filter_empty_conv)

lemma buildDailyMap_snoc: "buildDailyMap (xs @ [x]) = dailyStep (buildDailyMap xs) x"
  by (simp add: buildDailyMap_def)

lemma buildDailyMap_keyed:
  "buildDailyMap items =
     map (\<lambda>k. (k, accOf (samplesOf k items))) (firstSeen (map dayKeyOf items))"
proof (induction items rule: rev_induct)
  case Nil
  show ?case by (simp add: buildDailyMap_def)
next
  case (snoc x xs)
  let ?k = "dayKeyOf x"
  let ?ks = "firstSeen (map dayKeyOf xs)"
  show ?case
  proof (cases "?k \<in> set (map dayKeyOf xs)")
    case False
    then have new: "?k \<notin> set ?ks" by (simp add: set_firstSeen)
    have none: "map_of (buildDailyMap xs) ?k = None"
      using new by (simp add: snoc.IH map_of_keyed)
    have single: "samplesOf ?k xs = []" using False by (simp add: samplesOf_empty)
    have same: "\<And>j. j \<in> set ?ks \<Longrightarrow> samplesOf j (xs @ [x]) = samplesOf j xs"
      using new by (auto simp: samplesOf_snoc)
    have "buildDailyMap (xs @ [x]) = buildDailyMap xs @ [(?k, accOf [x])]"
      using none new by (simp add: buildDailyMap_snoc dailyStep_def Let_def snoc.IH update_keyed_new accOf_single)
    also have "\<dots> = map (\<lambda>k. (k, accOf (samplesOf k (xs @ [x])))) (?ks @ [?k])"
      using same single by (simp add: snoc.IH samplesOf_snoc)
    finally show ?thesis using False by (simp add: firstSeen_snoc)
  next
    case True
    then have old: "?k \<in> set ?ks" by (simp add: set_firstSeen)
    have some: "map_of (buildDailyMap xs) ?k = Some (accOf (samplesOf ?k xs))"
      using old by (simp add: snoc.IH map_of_keyed)
    have ne: "samplesOf ?k xs \<noteq> []" using True by (simp add: samplesOf_empty)
    have "buildDailyMap (xs @ [x]) =
            map (\<lambda>j. (j, if j = ?k then accOf (samplesOf ?k xs @ [x]) else accOf (samplesOf j xs))) ?ks"
      using some old ne
      by (simp add: buildDailyMap_snoc dailyStep_def Let_def snoc.IH update_keyed_old
            distinct_firstSeen accOf_snoc)
    also have "\<dots> = map (\<lambda>k. (k, accOf (samplesOf k (xs @ [x])))) ?ks"
      by (rule map_cong) (auto simp: samplesOf_snoc)
    finally show ?thesis using True by (simp add: firstSeen_snoc)
  qed
qed

lemma aggregate_Nil: "aggregate [] = []"
  by (simp add: aggregate_def buildDailyMap_def)

lemma aggregate_length: "length (aggregate items) \<le> 8"
  by (simp add: aggregate_def)

text \<open>
  The loop files the samples under their keys: one entry per key in first-seen order,
  holding the accumulated summary of the samples with that key.
\<close>

lemma aggregate_keyed:
  "aggregate items = take 8 (map (\<lambda>k. summary (samplesOf k items)) (firstSeen (map dayKeyOf items)))"
  by (simp add: aggregate_def buildDailyMap_keyed take_map toDaily_accOf o_def)

lemma firstSeen_map_inj:
  assumes "\<And>a b. f a = f b \<Longrightarrow> a = b"
  shows "firstSeen (map f xs) = map f (firstSeen xs)"
proof (induction xs)
  case Nil
  show ?case by simp
next
  case (Cons x xs)
  have "filter (\<lambda>y. y \<noteq> f x) (map f (firstSeen xs)) = map f (filter (\<lambda>y. y \<noteq> x) (firstSeen xs))"
    using assms by (auto simp: filter_map o_def intro!: arg_cong [where f = "map f"] filter_cong)
  with Cons show ?case by simp
qed

lemma dayKeyOf_valid: "validSample i \<Longrightarrow> dayKeyOf i = keyOfDay (utcDayOf i)"
  by (simp add: validSample_def dayKeyOf_def utcDayKey_def utcDayOf_def Let_def Day_def day_of_seconds)

lemma samplesOf_valid:
  assumes "\<forall>i \<in> set items. validSample i"
  shows "samplesOf (keyOfDay d) items = samplesOfDay d items"
  unfolding samplesOf_def samplesOfDay_def
proof (rule filter_cong [OF refl])
  fix i assume "i \<in> set items"
  then have "dayKeyOf i = keyOfDay (utcDayOf i)" using assms by (simp add: dayKeyOf_valid)
  then show "(dayKeyOf i = keyOfDay d) = (utcDayOf i = d)" using keyOfDay_inj by auto
qed

text \<open>
  C3. For every sequence of forecast samples whose timestamps are dates (inside the
  range of time values) the aggregation groups the samples by UTC calendar day: two
  samples get the same key exactly when they lie on the same UTC day, the groups come
  in the order their days are first seen, each summary takes its timestamp from the
  first sample of its day, its minimum and maximum are the exact minimum and maximum
  over the day's samples, its representative temperature and condition are those of
  the day's latest sample, and only the first eight summaries are emitted.
\<close>

theorem aggregate_by_utc_day:
  assumes "\<forall>i \<in> set items. validSample i"
  shows "aggregate items = aggregate_spec items
       \<and> (\<forall>i \<in> set items. \<forall>j \<in> set items. dayKeyOf i = dayKeyOf j \<longleftrightarrow> utcDayOf i = utcDayOf j)"
proof
  have keys: "map dayKeyOf items = map keyOfDay (map utcDayOf items)"
    using assms by (simp add: dayKeyOf_valid)
  have "aggregate items =
          take 8 (map (\<lambda>k. summary (samplesOf k items)) (map keyOfDay (firstSeen (map utcDayOf items))))"
    unfolding aggregate_keyed keys by (simp only: firstSeen_map_inj [of keyOfDay, OF keyOfDay_inj])
  also have "\<dots> = take 8 (map (\<lambda>d. summary (samplesOf (keyOfDay d) items)) (firstSeen (map utcDayOf items)))"
    by (simp add: o_def)
  also have "\<dots> = aggregate_spec items"
    by (simp add: aggregate_spec_def samplesOf_valid [OF assms])
  finally show "aggregate items = aggregate_spec items" .
  show "\<forall>i \<in> set items. \<forall>j \<in> set items. dayKeyOf i = dayKeyOf j \<longleftrightarrow> utcDayOf i = utcDayOf j"
    using assms keyOfDay_inj by (auto simp: dayKeyOf_valid)
qed

text \<open>
  Four samples over two days: the keys the code builds for them, and their aggregation
  by the theorem.
\<close>

lemma sample_days:
  "utcDayKey 1700049600 = ''2023-10-15''" "utcDayKey 1700060400 = ''2023-10-15''"
  "utcDayKey 1700092800 = ''2023-10-16''" "utcDayKey 1700103600 = ''2023-10-16''"
  by code_simp+

theorem aggregate_by_utc_day_witness:
  "validSample (fourSamples ! 0) \<and> validSample (fourSamples ! 1)
   \<and> validSample (fourSamples ! 2) \<and> validSample (fourSamples ! 3)
   \<and> map utcDayOf fourSamples = [19676, 19676, 19677, 19677]
   \<and> aggregate fourSamples =
     [\<lparr>ocd_dt = 1700049600, ocd_min = 12, ocd_max = 18, ocd_day = 14, ocd_weather = [lightRain]\<rparr>,
      \<lparr>ocd_dt = 1700092800, ocd_min = 9, ocd_max = 19, ocd_day = 13, ocd_weather = [clearSky]\<rparr>]"
proof -
  have v: "\<forall>i \<in> set fourSamples. validSample i"
    by (simp add: fourSamples_def validSample_def validTime_def)
  have d: "map utcDayOf fourSamples = [19676, 19676, 19677, 19677]"
    by (simp add: fourSamples_def utcDayOf_def)
  have "aggregate_spec fourSamples =
     [\<lparr>ocd_dt = 1700049600, ocd_min = 12, ocd_max = 18, ocd_day = 14, ocd_weather = [lightRain]\<rparr>,
      \<lparr>ocd_dt = 1700092800, ocd_min = 9, ocd_max = 19, ocd_day = 13, ocd_weather = [clearSky]\<rparr>]"
    by (simp add: aggregate_spec_def samplesOfDay_def summary_def fourSamples_def utcDayOf_def)
  with aggregate_by_utc_day [OF v] v d show ?thesis
    by (simp add: fourSamples_def)
qed

section \<open>Properties of the fetcher\<close>


lemma mergePayloads_weather:
  "mergePayloads current forecast = Inr oc \<Longrightarrow> occ_weather (ocr_current oc) = cw_weather current"
  by (auto simp: mergePayloads_def Let_def split: if_splits)



text \<open>
  The two ways the forecast leg fails. A response that is not \<open>ok\<close> throws, with the
  message of its body or its HTTP status; a response that is \<open>ok\<close> and carries a
  failing in-body status gives no samples, and the single day of the result is the one
  promoted from the current conditions.
\<close>

lemma forecast_not_ok_throws:
  assumes "length (trim (OPENWEATHER_API_KEY env)) \<ge> 20"
    "net_current env lat lon u = Response cs cj" "ok cs"
    "net_forecast env lat lon u = Response fs fj" "\<not> ok fs"
  shows "fetchWeatherFree env lat lon u
           = Inl (Error (httpMessage (case fj of Inl _ \<Rightarrow> None | Inr b \<Rightarrow> fr_message b) fs))"
  using assms by (auto simp: fetchWeatherFree_def Let_def)

lemma forecast_cod_failure_is_soft:
  assumes "length (trim (OPENWEATHER_API_KEY env)) \<ge> 20"
    "net_current env lat lon u = Response cs (Inr current)" "ok cs" "codOk (cw_cod current)"
    "net_forecast env lat lon u = Response fs (Inr forecast)" "ok fs" "\<not> codOk (fr_cod forecast)"
  shows "\<exists>oc. fetchWeatherFree env lat lon u = Inr oc \<and> ocr_daily oc = [synthetic current]"
  using assms
  by (auto simp: fetchWeatherFree_def mergePayloads_def forecastListOf_def aggregate_def
      buildDailyMap_def Let_def)

text \<open>
  C1. The claim: whenever the current-conditions leg succeeds and the forecast leg
  fails, by HTTP status or by in-body status, the fetcher returns no samples rather
  than an error and the resolution reaches \<open>success\<close> with one synthetic day. The
  code at a forecast answered with HTTP 429: \<open>fetchWeatherFree\<close> throws the message of
  the forecast body and \<open>searchByCity\<close> ends in state \<open>error\<close> with no snapshot. The
  same body under HTTP 200 is the soft failure the claim describes: the fetch returns
  and the search ends in \<open>success\<close> with the one promoted day.
\<close>

theorem forecast_http_failure_is_fatal:
  "fetchWeatherFree envForecastHttpDown 48.85 2.35 metric = Inl (Error ''too many requests'')
   \<and> after envForecastHttpDown typedParis SearchByCity
       = typedParis\<lparr>fetchState := error, error_msg := Some ''too many requests''\<rparr>
   \<and> fetchWeatherFree envForecastCodDown 48.85 2.35 metric = Inr parisOneCall
   \<and> after envForecastCodDown typedParis SearchByCity = parisShown"
  by code_simp

section \<open>Properties of the hook\<close>

lemma run_Nil: "run s [] = s"
  by (simp add: run_def)
lemma run_Cons: "run s (e # es) = run (applyEvent s e) es"
  by (simp add: run_def)
lemma run_append: "run s (a @ b) = run (run s a) b"
  by (simp add: run_def)

lemma catching_None: "catching (evs, None) h = evs"
  by (simp add: catching_def)
lemma catching_Some: "catching (evs, Some e) h = evs @ h e"
  by (simp add: catching_def)

lemma catching_success:
  assumes "SetFetchState success \<in> set (catching (evs, r) h)"
    and "\<And>e. SetFetchState success \<notin> set (h e)"
  shows "SetFetchState success \<in> set evs"
  using assms by (cases r) (auto simp: catching_None catching_Some)

lemma showWeather_empty:
  "occ_weather (ocr_current oc) = [] \<Longrightarrow> showWeather n c oc = ([], Some (undefinedProperty ''main''))"
  by (simp add: showWeather_def)

lemma showWeather_head:
  "occ_weather (ocr_current oc) = h # t \<Longrightarrow>
   showWeather n c oc =
     ([SetBackgroundKind (classifyBackground (w_main h) (w_id h)),
       SetWeather (snapshot n c oc), SetFetchState success], None)"
  by (simp add: showWeather_def)

lemma showsFresh_prefix: "showsFresh env evs \<Longrightarrow> showsFresh env (pre @ evs)"
  unfolding showsFresh_def run_append by fastforce

lemma showsFreshI:
  assumes "fetchOneCall env lat lon u = Inr oc" "showWeather n c oc = (evs, r)"
    "SetFetchState success \<in> set evs" "CallFetchOneCall lat lon u \<in> set pre"
  shows "r = None \<and> showsFresh env (pre @ evs) \<and> showsFresh env (pre @ evs @ [SetSearchMode city])"
proof (cases "occ_weather (ocr_current oc)")
  case Nil
  with assms(2,3) show ?thesis by (simp add: showWeather_empty)
next
  case (Cons h t)
  have evs: "evs = [SetBackgroundKind (classifyBackground (w_main h) (w_id h)),
       SetWeather (snapshot n c oc), SetFetchState success]" and r: "r = None"
    using assms(2) Cons by (simp_all add: showWeather_head)
  have "\<forall>s0. weather (run s0 (pre @ evs)) = Some (snapshot n c oc)
            \<and> fetchState (run s0 (pre @ evs)) = success"
    by (simp add: run_append evs run_Cons run_Nil)
  moreover have "\<forall>s0. weather (run s0 (pre @ evs @ [SetSearchMode city])) = Some (snapshot n c oc)
            \<and> fetchState (run s0 (pre @ evs @ [SetSearchMode city])) = success"
    by (simp add: run_append evs run_Cons run_Nil)
  ultimately show ?thesis
    unfolding showsFresh_def using r assms(1,4) Cons by fastforce
qed

lemma handleUnitsChange_try_success:
  assumes "handleUnitsChange_try env w next = (evs, r)" "SetFetchState success \<in> set evs"
  shows "r = None \<and> showsFresh env evs"
proof (cases "fetchOneCall env (rw_lat w) (rw_lon w) next")
  case (Inl err)
  with assms show ?thesis by (auto simp: handleUnitsChange_try_def)
next
  case (Inr fresh)
  obtain evs' r' where sw: "showWeather (locationName w) (countryCode w) fresh = (evs', r')"
    by (cases "showWeather (locationName w) (countryCode w) fresh")
  let ?pre = "[SetFetchState loading, SetError None, CallFetchOneCall (rw_lat w) (rw_lon w) next]"
  have evs: "evs = ?pre @ evs'" and r: "r = r'"
    using assms(1) Inr sw by (simp_all add: handleUnitsChange_try_def)
  have "SetFetchState success \<in> set evs'" using assms(2) evs by simp
  from showsFreshI [OF Inr sw this, of ?pre] show ?thesis
    using evs r by simp
qed

lemma handleUnitsChange_success:
  assumes "SetFetchState success \<in> set (handleUnitsChange env s next)"
  shows "showsFresh env (handleUnitsChange env s next)"
proof (cases "next = units s")
  case True
  with assms show ?thesis by (simp add: handleUnitsChange_def)
next
  case False
  show ?thesis
  proof (cases "weather s")
    case None
    with assms False show ?thesis by (simp add: handleUnitsChange_def)
  next
    case (Some w)
    obtain evs r where t: "handleUnitsChange_try env w next = (evs, r)"
      by (cases "handleUnitsChange_try env w next")
    let ?h = "\<lambda>err::exn. [SetFetchState error, SetError (Some ''Unable to refresh weather for the new unit.'')]"
    have tr: "handleUnitsChange env s next = [SetUnits next] @ catching (evs, r) ?h"
      using False Some t by (simp add: handleUnitsChange_def)
    then have "SetFetchState success \<in> set (catching (evs, r) ?h)" using assms by simp
    then have "SetFetchState success \<in> set evs" by (rule catching_success) simp
    from handleUnitsChange_try_success [OF t this]
    have "r = None" and "showsFresh env evs" by simp_all
    then show ?thesis unfolding tr by (simp only: catching_None showsFresh_prefix)
  qed
qed

lemma searchByCity_try_success:
  assumes "searchByCity_try env s = (evs, r)" "SetFetchState success \<in> set evs"
  shows "r = None \<and> showsFresh env evs"
proof (cases "geocodeCity env (trim (searchQuery s))")
  case (Inl err)
  with assms show ?thesis by (auto simp: searchByCity_try_def)
next
  case (Inr found)
  show ?thesis
  proof (cases found)
    case None
    with assms Inr show ?thesis by (auto simp: searchByCity_try_def)
  next
    case (Some g)
    let ?pre = "[SetFetchState loading, SetError None, CallGeocodeCity (trim (searchQuery s)),
                 CallFetchOneCall (geo_lat g) (geo_lon g) (units s)]"
    show ?thesis
    proof (cases "fetchOneCall env (geo_lat g) (geo_lon g) (units s)")
      case (Inl err)
      with assms Inr Some show ?thesis by (auto simp: searchByCity_try_def)
    next
      case fetched: (Inr oneCall)
      obtain evs' r' where sw:
        "showWeather (buildLocationLabel (Some g) (Some (geo_name g))) (geo_country g) oneCall = (evs', r')"
        by (cases "showWeather (buildLocationLabel (Some g) (Some (geo_name g))) (geo_country g) oneCall")
      have shape: "(evs, r) = (case r' of None \<Rightarrow> (?pre @ evs' @ [SetSearchMode city], None)
                                | Some err \<Rightarrow> (?pre @ evs', Some err))"
        using assms(1) Inr Some fetched sw by (auto simp add: searchByCity_try_def Let_def split: option.splits)
      have "SetFetchState success \<in> set evs'"
        using assms(2) shape by (cases r') auto
      from showsFreshI [OF fetched sw this, of ?pre]
      have "r' = None" and "showsFresh env (?pre @ evs' @ [SetSearchMode city])" by simp_all
      then show ?thesis using shape by simp
    qed
  qed
qed

lemma searchByCity_success:
  assumes "SetFetchState success \<in> set (searchByCity env s)"
  shows "showsFresh env (searchByCity env s)"
proof (cases "trim (searchQuery s) = []")
  case True
  with assms show ?thesis by (simp add: searchByCity_def)
next
  case False
  obtain evs r where t: "searchByCity_try env s = (evs, r)"
    by (cases "searchByCity_try env s")
  let ?h = "\<lambda>err. [SetFetchState error,
                  SetError (Some (orElse (Some (err_message err)) ''Unable to fetch weather for that city.''))]"
  have tr: "searchByCity env s = catching (evs, r) ?h"
    using False t by (simp add: searchByCity_def)
  then have "SetFetchState success \<in> set (catching (evs, r) ?h)" using assms by simp
  then have "SetFetchState success \<in> set evs" by (rule catching_success) simp
  from searchByCity_try_success [OF t this]
  have "r = None" and "showsFresh env evs" by simp_all
  then show ?thesis unfolding tr by (simp only: catching_None)
qed

lemma refreshPosition_try_success:
  assumes "refreshPosition_try env s la lo = (evs, r)" "SetFetchState success \<in> set evs"
  shows "r = None \<and> showsFresh env evs"
proof (cases "fetchOneCall env la lo (units s)")
  case (Inl err)
  with assms show ?thesis by (auto simp: refreshPosition_try_def)
next
  case (Inr oneCall)
  obtain evs' r' where sw:
    "showWeather (buildLocationLabel None (Some ''Current location'')) None oneCall = (evs', r')"
    by (cases "showWeather (buildLocationLabel None (Some ''Current location'')) None oneCall")
  let ?pre = "[CallFetchOneCall la lo (units s)]"
  have evs: "evs = ?pre @ evs'" and r: "r = r'"
    using assms(1) Inr sw by (simp_all add: refreshPosition_try_def)
  have "SetFetchState success \<in> set evs'" using assms(2) evs by simp
  from showsFreshI [OF Inr sw this, of ?pre] show ?thesis
    using evs r by simp
qed

lemma refreshPosition_success:
  assumes "SetFetchState success \<in> set (refreshPosition env s la lo)"
  shows "showsFresh env (refreshPosition env s la lo)"
proof -
  obtain evs r where t: "refreshPosition_try env s la lo = (evs, r)"
    by (cases "refreshPosition_try env s la lo")
  let ?h = "\<lambda>err::exn. [SetFetchState error, SetError (Some ''Unable to refresh weather for your location.'')]"
  have tr: "refreshPosition env s la lo = catching (evs, r) ?h"
    using t by (simp add: refreshPosition_def)
  then have "SetFetchState success \<in> set (catching (evs, r) ?h)" using assms by simp
  then have "SetFetchState success \<in> set evs" by (rule catching_success) simp
  from refreshPosition_try_success [OF t this]
  have "r = None" and "showsFresh env evs" by simp_all
  then show ?thesis unfolding tr by (simp only: catching_None)
qed

lemma refreshWithGeo_success:
  assumes "SetFetchState success \<in> set (refreshWithGeo env s)"
  shows "showsFresh env (refreshWithGeo env s)"
proof (cases "geolocation env")
  case None
  with assms show ?thesis by (simp add: refreshWithGeo_def)
next
  case (Some outcome)
  show ?thesis
  proof (cases outcome)
    case PositionError
    with assms Some show ?thesis by (simp add: refreshWithGeo_def)
  next
    case NoAnswer
    with assms Some show ?thesis by (simp add: refreshWithGeo_def)
  next
    case (Position la lo)
    have tr: "refreshWithGeo env s =
        [SetFetchState loading, SetError None, SetSearchMode geo, CallGetCurrentPosition]
        @ refreshPosition env s la lo"
      using Some Position by (simp add: refreshWithGeo_def)
    then have "SetFetchState success \<in> set (refreshPosition env s la lo)" using assms by simp
    then have "showsFresh env (refreshPosition env s la lo)" by (rule refreshPosition_success)
    then show ?thesis unfolding tr by (rule showsFresh_prefix)
  qed
qed

lemma reverseGeocode_total: "\<exists>g. reverseGeocode env lat lon = Inr g"
  by (simp add: reverseGeocode_def split: sum.splits)

lemma mountPosition_try_success:
  assumes "mountPosition_try env s la lo = (evs, r)" "SetFetchState success \<in> set evs"
  shows "r = None \<and> showsFresh env evs"
proof (cases "fetchOneCall env la lo (units s)")
  case (Inl err)
  with assms show ?thesis by (auto simp: mountPosition_try_def)
next
  case (Inr oneCall)
  obtain g where g: "reverseGeocode env la lo = Inr g" using reverseGeocode_total by blast
  let ?n = "buildLocationLabel g (Some ''Current location'')"
  let ?c = "case g of None \<Rightarrow> None | Some gr \<Rightarrow> geo_country gr"
  obtain evs' r' where sw: "showWeather ?n ?c oneCall = (evs', r')"
    by (cases "showWeather ?n ?c oneCall")
  let ?pre = "[CallFetchOneCall la lo (units s), CallReverseGeocode la lo]"
  have evs: "evs = ?pre @ evs'" and r: "r = r'"
    using assms(1) Inr sw g by (simp_all add: mountPosition_try_def)
  have "SetFetchState success \<in> set evs'" using assms(2) evs by simp
  from showsFreshI [OF Inr sw this, of ?pre] show ?thesis
    using evs r by simp
qed

lemma mountPosition_success:
  assumes "SetFetchState success \<in> set (mountPosition env s la lo)"
  shows "showsFresh env (mountPosition env s la lo)"
proof -
  obtain evs r where t: "mountPosition_try env s la lo = (evs, r)"
    by (cases "mountPosition_try env s la lo")
  let ?h = "\<lambda>err. [SetFetchState error,
               SetError (Some (orElse (Some (err_message err)) ''Unable to get weather for your location.''
                               @ '' Please search for a city instead.''))]"
  have tr: "mountPosition env s la lo = catching (evs, r) ?h"
    using t by (simp add: mountPosition_def)
  then have "SetFetchState success \<in> set (catching (evs, r) ?h)" using assms by simp
  then have "SetFetchState success \<in> set evs" by (rule catching_success) simp
  from mountPosition_try_success [OF t this]
  have "r = None" and "showsFresh env evs" by simp_all
  then show ?thesis unfolding tr by (simp only: catching_None)
qed

lemma loadDefaultCity_try_success:
  assumes "loadDefaultCity_try env s = (evs, r)" "SetFetchState success \<in> set evs"
  shows "r = None \<and> showsFresh env evs"
proof (cases "geocodeCity env ''New York''")
  case (Inl err)
  with assms show ?thesis by (auto simp: loadDefaultCity_try_def)
next
  case (Inr found)
  show ?thesis
  proof (cases found)
    case None
    with assms Inr show ?thesis by (auto simp: loadDefaultCity_try_def)
  next
    case (Some g)
    let ?pre = "[SetFetchState loading, CallGeocodeCity ''New York'',
                 CallFetchOneCall (geo_lat g) (geo_lon g) (units s)]"
    show ?thesis
    proof (cases "fetchOneCall env (geo_lat g) (geo_lon g) (units s)")
      case (Inl err)
      with assms Inr Some show ?thesis by (auto simp: loadDefaultCity_try_def)
    next
      case fetched: (Inr oneCall)
      obtain evs' r' where sw:
        "showWeather (buildLocationLabel (Some g) (Some (geo_name g))) (geo_country g) oneCall = (evs', r')"
        by (cases "showWeather (buildLocationLabel (Some g) (Some (geo_name g))) (geo_country g) oneCall")
      have evs: "evs = ?pre @ evs'" and r: "r = r'"
        using assms(1) Inr Some fetched sw by (simp_all add: loadDefaultCity_try_def)
      have "SetFetchState success \<in> set evs'" using assms(2) evs by simp
      from showsFreshI [OF fetched sw this, of ?pre] show ?thesis
        using evs r by simp
    qed
  qed
qed

lemma loadDefaultCity_success:
  assumes "SetFetchState success \<in> set (loadDefaultCity env s)"
  shows "showsFresh env (loadDefaultCity env s)"
proof -
  obtain evs r where t: "loadDefaultCity_try env s = (evs, r)"
    by (cases "loadDefaultCity_try env s")
  let ?h = "\<lambda>err. [SetFetchState idle,
               SetError (Some (''Unable to load default city: ''
                               @ orElse (Some (err_message err)) ''Unknown error''))]"
  have tr: "loadDefaultCity env s = catching (evs, r) ?h"
    using t by (simp add: loadDefaultCity_def)
  then have "SetFetchState success \<in> set (catching (evs, r) ?h)" using assms by simp
  then have "SetFetchState success \<in> set evs" by (rule catching_success) simp
  from loadDefaultCity_try_success [OF t this]
  have "r = None" and "showsFresh env evs" by simp_all
  then show ?thesis unfolding tr by (simp only: catching_None)
qed

lemma onMount_success:
  assumes "SetFetchState success \<in> set (onMount env s)"
  shows "showsFresh env (onMount env s)"
proof (cases "geolocation env")
  case None
  with assms show ?thesis by (simp add: onMount_def)
next
  case (Some outcome)
  let ?pre = "[SetFetchState loading, SetSearchMode geo, CallGetCurrentPosition]"
  show ?thesis
  proof (cases outcome)
    case PositionError
    have tr: "onMount env s = ?pre @ loadDefaultCity env s"
      using Some PositionError by (simp add: onMount_def)
    then have "SetFetchState success \<in> set (loadDefaultCity env s)" using assms by simp
    then have "showsFresh env (loadDefaultCity env s)" by (rule loadDefaultCity_success)
    then show ?thesis unfolding tr by (rule showsFresh_prefix)
  next
    case NoAnswer
    have tr: "onMount env s = ?pre @ loadDefaultCity env s"
      using Some NoAnswer by (simp add: onMount_def)
    then have "SetFetchState success \<in> set (loadDefaultCity env s)" using assms by simp
    then have "showsFresh env (loadDefaultCity env s)" by (rule loadDefaultCity_success)
    then show ?thesis unfolding tr by (rule showsFresh_prefix)
  next
    case (Position la lo)
    have tr: "onMount env s = ?pre @ mountPosition env s la lo"
      using Some Position by (simp add: onMount_def)
    then have "SetFetchState success \<in> set (mountPosition env s la lo)" using assms by simp
    then have "showsFresh env (mountPosition env s la lo)" by (rule mountPosition_success)
    then show ?thesis unfolding tr by (rule showsFresh_prefix)
  qed
qed

lemma perform_success:
  assumes "SetFetchState success \<in> set (perform env s i)"
  shows "showsFresh env (perform env s i)"
  using assms
  by (cases i) (simp_all add: onMount_success handleUnitsChange_success searchByCity_success
      refreshWithGeo_success)

text \<open>
  The traces of the handlers on the paths that fail, and of the mount path that
  succeeds.
\<close>

lemma units_fail:
  assumes "weather s = Some w" "next \<noteq> units s"
    "fetchOneCall env (rw_lat w) (rw_lon w) next = Inl err"
  shows "handleUnitsChange env s next =
     [SetUnits next, SetFetchState loading, SetError None, CallFetchOneCall (rw_lat w) (rw_lon w) next,
      SetFetchState error, SetError (Some ''Unable to refresh weather for the new unit.'')]"
  using assms by (simp add: handleUnitsChange_def handleUnitsChange_try_def catching_Some)

lemma units_no_condition:
  assumes "weather s = Some w" "next \<noteq> units s"
    "fetchOneCall env (rw_lat w) (rw_lon w) next = Inr fresh" "occ_weather (ocr_current fresh) = []"
  shows "handleUnitsChange env s next =
     [SetUnits next, SetFetchState loading, SetError None, CallFetchOneCall (rw_lat w) (rw_lon w) next,
      SetFetchState error, SetError (Some ''Unable to refresh weather for the new unit.'')]"
  using assms
  by (simp add: handleUnitsChange_def handleUnitsChange_try_def showWeather_empty catching_Some)

lemma search_no_condition:
  assumes "trim (searchQuery s) \<noteq> []" "geocodeCity env (trim (searchQuery s)) = Inr (Some g)"
    "fetchOneCall env (geo_lat g) (geo_lon g) (units s) = Inr oc" "occ_weather (ocr_current oc) = []"
  shows "searchByCity env s =
     [SetFetchState loading, SetError None, CallGeocodeCity (trim (searchQuery s)),
      CallFetchOneCall (geo_lat g) (geo_lon g) (units s),
      SetFetchState error, SetError (Some (err_message (undefinedProperty ''main'')))]"
  using assms
  by (simp add: searchByCity_def searchByCity_try_def showWeather_empty catching_Some
      undefinedProperty_def TypeError_def)

lemma refresh_no_condition:
  assumes "fetchOneCall env la lo (units s) = Inr oc" "occ_weather (ocr_current oc) = []"
  shows "refreshPosition env s la lo =
     [CallFetchOneCall la lo (units s), SetFetchState error,
      SetError (Some ''Unable to refresh weather for your location.'')]"
  using assms
  by (simp add: refreshPosition_def refreshPosition_try_def showWeather_empty catching_Some)

lemma mount_no_condition:
  assumes "fetchOneCall env la lo (units s) = Inr oc" "occ_weather (ocr_current oc) = []"
  shows "mountPosition env s la lo =
     [CallFetchOneCall la lo (units s), CallReverseGeocode la lo, SetFetchState error,
      SetError (Some (err_message (undefinedProperty ''main'') @ '' Please search for a city instead.''))]"
proof -
  obtain g where g: "reverseGeocode env la lo = Inr g" using reverseGeocode_total by blast
  show ?thesis using assms g
    by (simp add: mountPosition_def mountPosition_try_def showWeather_empty catching_Some
        undefinedProperty_def TypeError_def)
qed

lemma default_no_condition:
  assumes "geocodeCity env ''New York'' = Inr (Some g)"
    "fetchOneCall env (geo_lat g) (geo_lon g) (units s) = Inr oc" "occ_weather (ocr_current oc) = []"
  shows "loadDefaultCity env s =
     [SetFetchState loading, CallGeocodeCity ''New York'',
      CallFetchOneCall (geo_lat g) (geo_lon g) (units s), SetFetchState idle,
      SetError (Some (''Unable to load default city: '' @ err_message (undefinedProperty ''main'')))]"
  using assms
  by (simp add: loadDefaultCity_def loadDefaultCity_try_def showWeather_empty catching_Some
      undefinedProperty_def TypeError_def)

lemma mount_shows:
  assumes "fetchOneCall env la lo (units s) = Inr oc" "occ_weather (ocr_current oc) = h # t"
    "reverseGeocode env la lo = Inr g"
  shows "mountPosition env s la lo =
     [CallFetchOneCall la lo (units s), CallReverseGeocode la lo,
      SetBackgroundKind (classifyBackground (w_main h) (w_id h)),
      SetWeather (snapshot (buildLocationLabel g (Some ''Current location''))
                   (case g of None \<Rightarrow> None | Some gr \<Rightarrow> geo_country gr) oc),
      SetFetchState success]"
  using assms
  by (simp add: mountPosition_def mountPosition_try_def showWeather_head catching_None)

lemma reverseGeocode_failures:
  "(\<exists>err. net_reverse env lat lon = Rejected err)
    \<or> (\<exists>st js. net_reverse env lat lon = Response st js \<and> (\<not> ok st \<or> (\<exists>err. js = Inl err)))
   \<Longrightarrow> reverseGeocode env lat lon = Inr None"
  by (auto simp: reverseGeocode_def reverseGeocode_try_def split: sum.splits if_splits)



text \<open>
  C5. A unit change on a state that holds a snapshot, whose re-fetch at the snapshot's
  coordinates fails, ends in state \<open>error\<close> with the message of the refresh, and the
  snapshot shown before is still the one shown.
\<close>

theorem failed_unit_change_keeps_snapshot:
  assumes "weather s = Some w" "next \<noteq> units s"
    "fetchOneCall env (rw_lat w) (rw_lon w) next = Inl err"
  shows "fetchState (after env s (ChangeUnits next)) = error
       \<and> error_msg (after env s (ChangeUnits next)) = Some ''Unable to refresh weather for the new unit.''
       \<and> weather (after env s (ChangeUnits next)) = Some w"
  using assms(1) by (simp add: after_def units_fail [OF assms] run_Cons run_Nil)

theorem failed_unit_change_keeps_snapshot_witness:
  "weather parisShown = Some parisSnapshot \<and> imperial \<noteq> units parisShown
   \<and> fetchOneCall envAllDown (rw_lat parisSnapshot) (rw_lon parisSnapshot) imperial
       = Inl (TypeError ''Failed to fetch'')
   \<and> fetchState (after envAllDown parisShown (ChangeUnits imperial)) = error
   \<and> error_msg (after envAllDown parisShown (ChangeUnits imperial))
       = Some ''Unable to refresh weather for the new unit.''
   \<and> weather (after envAllDown parisShown (ChangeUnits imperial)) = Some parisSnapshot"
proof -
  have h1: "weather parisShown = Some parisSnapshot" by (simp add: parisShown_def)
  have h2: "imperial \<noteq> units parisShown" by (simp add: parisShown_def)
  have h3: "fetchOneCall envAllDown (rw_lat parisSnapshot) (rw_lon parisSnapshot) imperial
       = Inl (TypeError ''Failed to fetch'')" by code_simp
  from failed_unit_change_keeps_snapshot [OF h1 h2 h3] h1 h2 h3 show ?thesis by simp
qed

text \<open>
  C6. When the query trims to the empty string, \<open>searchByCity\<close> does one thing: it
  sets the message asking for a city name. The fetch state keeps its value, \<open>loading\<close>
  is never set, and no geocoding or fetch call is made.
\<close>

theorem blank_query_fails_fast:
  assumes "trim (searchQuery s) = []"
  shows "perform env s SearchByCity = [SetError (Some ''Please enter a city name'')]
       \<and> after env s SearchByCity = s\<lparr>error_msg := Some ''Please enter a city name''\<rparr>
       \<and> fetchState (after env s SearchByCity) = fetchState s
       \<and> (\<forall>e \<in> set (perform env s SearchByCity). \<not> isNetworkCall e \<and> e \<noteq> SetFetchState loading)"
  using assms by (simp add: after_def searchByCity_def run_Cons run_Nil)

theorem blank_query_fails_fast_witness:
  "trim (searchQuery typedBlanks) = []
   \<and> perform envOk typedBlanks SearchByCity = [SetError (Some ''Please enter a city name'')]
   \<and> after envOk typedBlanks SearchByCity = typedBlanks\<lparr>error_msg := Some ''Please enter a city name''\<rparr>
   \<and> fetchState (after envOk typedBlanks SearchByCity) = idle"
proof -
  have h: "trim (searchQuery typedBlanks) = []" by code_simp
  have i: "fetchState typedBlanks = idle" by (simp add: typedBlanks_def initialState_def)
  from blank_query_fails_fast [OF h, of envOk] h i show ?thesis by simp
qed

text \<open>
  C7. A unit change to the current unit system does nothing: no effect at all, so no
  network call, and the state is the same. A change to another unit system while no
  snapshot exists only stores the new unit, with no fetch.
\<close>

theorem same_units_is_noop:
  "(next = units s \<longrightarrow>
      perform env s (ChangeUnits next) = [] \<and> after env s (ChangeUnits next) = s)
   \<and> (next \<noteq> units s \<and> weather s = None \<longrightarrow>
      perform env s (ChangeUnits next) = [SetUnits next]
      \<and> after env s (ChangeUnits next) = s\<lparr>units := next\<rparr>)"
  by (simp add: after_def handleUnitsChange_def run_Cons run_Nil)

theorem same_units_is_noop_witness:
  "metric = units parisShown
   \<and> perform envOk parisShown (ChangeUnits metric) = []
   \<and> after envOk parisShown (ChangeUnits metric) = parisShown
   \<and> imperial \<noteq> units initialState \<and> weather initialState = None
   \<and> perform envOk initialState (ChangeUnits imperial) = [SetUnits imperial]
   \<and> after envOk initialState (ChangeUnits imperial) = initialState\<lparr>units := imperial\<rparr>"
proof -
  have h1: "metric = units parisShown" by (simp add: parisShown_def)
  have h2: "imperial \<noteq> units initialState \<and> weather initialState = None"
    by (simp add: initialState_def)
  from same_units_is_noop [of metric parisShown envOk]
    same_units_is_noop [of imperial initialState envOk] h1 h2
  show ?thesis by simp
qed

text \<open>
  C8. \<open>reverseGeocode\<close> always returns: a rejected request, a response that is not
  \<open>ok\<close> and a body that does not parse all give \<open>null\<close>. The resolution by coordinates
  at mount therefore reaches \<open>success\<close> whenever its fetch succeeded with a condition
  listed, and under a failed reverse lookup the label is \<open>Current location\<close>.
\<close>

theorem reverseGeocode_never_throws:
  "(\<exists>g. reverseGeocode env lat lon = Inr g)
   \<and> ((\<exists>err. net_reverse env lat lon = Rejected err)
        \<or> (\<exists>st js. net_reverse env lat lon = Response st js \<and> (\<not> ok st \<or> (\<exists>err. js = Inl err)))
       \<longrightarrow> reverseGeocode env lat lon = Inr None)
   \<and> (fetchOneCall env lat lon (units s) = Inr oc \<and> occ_weather (ocr_current oc) \<noteq> [] \<longrightarrow>
        fetchState (run s (mountPosition env s lat lon)) = success
        \<and> (reverseGeocode env lat lon = Inr None \<longrightarrow>
             weather (run s (mountPosition env s lat lon)) = Some (snapshot ''Current location'' None oc)))"
proof (intro conjI impI)
  show "\<exists>g. reverseGeocode env lat lon = Inr g" by (rule reverseGeocode_total)
next
  assume "(\<exists>err. net_reverse env lat lon = Rejected err)
        \<or> (\<exists>st js. net_reverse env lat lon = Response st js \<and> (\<not> ok st \<or> (\<exists>err. js = Inl err)))"
  then show "reverseGeocode env lat lon = Inr None" by (rule reverseGeocode_failures)
next
  assume a: "fetchOneCall env lat lon (units s) = Inr oc \<and> occ_weather (ocr_current oc) \<noteq> []"
  then obtain h t where ht: "occ_weather (ocr_current oc) = h # t"
    by (cases "occ_weather (ocr_current oc)") auto
  obtain g where g: "reverseGeocode env lat lon = Inr g" using reverseGeocode_total by blast
  from a have f: "fetchOneCall env lat lon (units s) = Inr oc" by simp
  show "fetchState (run s (mountPosition env s lat lon)) = success"
    by (simp add: mount_shows [OF f ht g] run_Cons run_Nil)
  assume n: "reverseGeocode env lat lon = Inr None"
  show "weather (run s (mountPosition env s lat lon)) = Some (snapshot ''Current location'' None oc)"
    by (simp add: mount_shows [OF f ht n] run_Cons run_Nil buildLocationLabel_def)
qed

theorem reverseGeocode_never_throws_witness:
  "net_reverse envForecastCodDown 48.85 2.35 = Rejected (TypeError ''Failed to fetch'')
   \<and> reverseGeocode envForecastCodDown 48.85 2.35 = Inr None
   \<and> fetchOneCall envForecastCodDown 48.85 2.35 (units initialState) = Inr parisOneCall
   \<and> occ_weather (ocr_current parisOneCall) \<noteq> []
   \<and> fetchState (run initialState (mountPosition envForecastCodDown initialState 48.85 2.35)) = success
   \<and> weather (run initialState (mountPosition envForecastCodDown initialState 48.85 2.35))
       = Some (snapshot ''Current location'' None parisOneCall)"
proof -
  have h1: "net_reverse envForecastCodDown 48.85 2.35 = Rejected (TypeError ''Failed to fetch'')"
    by (simp add: envForecastCodDown_def envWith_def)
  have h2: "fetchOneCall envForecastCodDown 48.85 2.35 (units initialState) = Inr parisOneCall"
    by code_simp
  have h3: "occ_weather (ocr_current parisOneCall) \<noteq> []" by (simp add: parisOneCall_def)
  from reverseGeocode_never_throws [of envForecastCodDown "48.85" "2.35" initialState parisOneCall]
    h1 h2 h3
  show ?thesis by simp
qed

text \<open>
  C9. A unit change to another unit system with a snapshot present sets the unit before
  it fetches and sets it only once: when the fetch fails the stored unit is the new
  one, while the snapshot is still the one fetched under the previous unit.
\<close>

theorem failed_unit_change_keeps_new_units:
  assumes "weather s = Some w" "next \<noteq> units s"
    "fetchOneCall env (rw_lat w) (rw_lon w) next = Inl err"
  shows "perform env s (ChangeUnits next) =
           [SetUnits next, SetFetchState loading, SetError None,
            CallFetchOneCall (rw_lat w) (rw_lon w) next,
            SetFetchState error, SetError (Some ''Unable to refresh weather for the new unit.'')]
       \<and> units (after env s (ChangeUnits next)) = next
       \<and> weather (after env s (ChangeUnits next)) = Some w"
  using assms(1) by (simp add: after_def units_fail [OF assms] run_Cons run_Nil)

theorem failed_unit_change_keeps_new_units_witness:
  "weather parisShown = Some parisSnapshot \<and> imperial \<noteq> units parisShown
   \<and> fetchOneCall envAllDown (rw_lat parisSnapshot) (rw_lon parisSnapshot) imperial
       = Inl (TypeError ''Failed to fetch'')
   \<and> units parisShown = metric
   \<and> units (after envAllDown parisShown (ChangeUnits imperial)) = imperial
   \<and> weather (after envAllDown parisShown (ChangeUnits imperial)) = Some parisSnapshot"
proof -
  have h1: "weather parisShown = Some parisSnapshot" by (simp add: parisShown_def)
  have h2: "imperial \<noteq> units parisShown" by (simp add: parisShown_def)
  have h3: "fetchOneCall envAllDown (rw_lat parisSnapshot) (rw_lon parisSnapshot) imperial
       = Inl (TypeError ''Failed to fetch'')" by code_simp
  have h4: "units parisShown = metric" by (simp add: parisShown_def)
  from failed_unit_change_keeps_new_units [OF h1 h2 h3] h1 h2 h3 h4 show ?thesis by simp
qed

text \<open>
  C10. Every path into \<open>success\<close> reads the first element of the current conditions'
  \<open>weather\<close> list: a trace that sets \<open>success\<close> has fetched current conditions that
  list a condition, and shows the snapshot built from them. With an empty list the
  read throws and the handler's \<open>catch\<close> block runs instead: \<open>searchByCity\<close>, the
  unit change, the refresh by position and the mount by position end in \<open>error\<close>,
  the default city at mount ends in \<open>idle\<close> with its message, and the snapshot shown
  before is untouched.
\<close>

theorem success_needs_a_condition:
  "(SetFetchState success \<in> set (perform env s i) \<longrightarrow>
      (\<exists>lat lon u oc n c.
         CallFetchOneCall lat lon u \<in> set (perform env s i) \<and> fetchOneCall env lat lon u = Inr oc
         \<and> occ_weather (ocr_current oc) \<noteq> [] \<and> weather (after env s i) = Some (snapshot n c oc)))
   \<and> (trim (searchQuery s) \<noteq> [] \<and> geocodeCity env (trim (searchQuery s)) = Inr (Some g)
        \<and> fetchOneCall env (geo_lat g) (geo_lon g) (units s) = Inr oc1
        \<and> occ_weather (ocr_current oc1) = [] \<longrightarrow>
        fetchState (after env s SearchByCity) = error
        \<and> error_msg (after env s SearchByCity) = Some (err_message (undefinedProperty ''main''))
        \<and> weather (after env s SearchByCity) = weather s)
   \<and> (weather s = Some w \<and> next \<noteq> units s
        \<and> fetchOneCall env (rw_lat w) (rw_lon w) next = Inr oc2
        \<and> occ_weather (ocr_current oc2) = [] \<longrightarrow>
        fetchState (after env s (ChangeUnits next)) = error
        \<and> error_msg (after env s (ChangeUnits next)) = Some ''Unable to refresh weather for the new unit.''
        \<and> weather (after env s (ChangeUnits next)) = Some w)
   \<and> (fetchOneCall env la lo (units s) = Inr oc3 \<and> occ_weather (ocr_current oc3) = [] \<longrightarrow>
        fetchState (run s (refreshPosition env s la lo)) = error
        \<and> fetchState (run s (mountPosition env s la lo)) = error
        \<and> weather (run s (refreshPosition env s la lo)) = weather s
        \<and> weather (run s (mountPosition env s la lo)) = weather s)
   \<and> (geocodeCity env ''New York'' = Inr (Some g')
        \<and> fetchOneCall env (geo_lat g') (geo_lon g') (units s) = Inr oc4
        \<and> occ_weather (ocr_current oc4) = [] \<longrightarrow>
        fetchState (run s (loadDefaultCity env s)) = idle
        \<and> error_msg (run s (loadDefaultCity env s))
            = Some (''Unable to load default city: '' @ err_message (undefinedProperty ''main''))
        \<and> weather (run s (loadDefaultCity env s)) = weather s)"
proof (intro conjI impI)
  assume "SetFetchState success \<in> set (perform env s i)"
  then have "showsFresh env (perform env s i)" by (rule perform_success)
  then show "\<exists>lat lon u oc n c.
         CallFetchOneCall lat lon u \<in> set (perform env s i) \<and> fetchOneCall env lat lon u = Inr oc
         \<and> occ_weather (ocr_current oc) \<noteq> [] \<and> weather (after env s i) = Some (snapshot n c oc)"
    unfolding showsFresh_def after_def by blast
next
  assume a: "trim (searchQuery s) \<noteq> [] \<and> geocodeCity env (trim (searchQuery s)) = Inr (Some g)
        \<and> fetchOneCall env (geo_lat g) (geo_lon g) (units s) = Inr oc1
        \<and> occ_weather (ocr_current oc1) = []"
  then have tr: "searchByCity env s =
     [SetFetchState loading, SetError None, CallGeocodeCity (trim (searchQuery s)),
      CallFetchOneCall (geo_lat g) (geo_lon g) (units s),
      SetFetchState error, SetError (Some (err_message (undefinedProperty ''main'')))]"
    using search_no_condition [of s env g oc1] by simp
  show "fetchState (after env s SearchByCity) = error"
    and "error_msg (after env s SearchByCity) = Some (err_message (undefinedProperty ''main''))"
    and "weather (after env s SearchByCity) = weather s"
    by (simp_all add: after_def tr run_Cons run_Nil)
next
  assume a: "weather s = Some w \<and> next \<noteq> units s
        \<and> fetchOneCall env (rw_lat w) (rw_lon w) next = Inr oc2
        \<and> occ_weather (ocr_current oc2) = []"
  then have tr: "handleUnitsChange env s next =
     [SetUnits next, SetFetchState loading, SetError None, CallFetchOneCall (rw_lat w) (rw_lon w) next,
      SetFetchState error, SetError (Some ''Unable to refresh weather for the new unit.'')]"
    using units_no_condition [of s w "next" env oc2] by simp
  show "fetchState (after env s (ChangeUnits next)) = error"
    and "error_msg (after env s (ChangeUnits next)) = Some ''Unable to refresh weather for the new unit.''"
    and "weather (after env s (ChangeUnits next)) = Some w"
    using a by (simp_all add: after_def tr run_Cons run_Nil)
next
  assume a: "fetchOneCall env la lo (units s) = Inr oc3 \<and> occ_weather (ocr_current oc3) = []"
  then have f: "fetchOneCall env la lo (units s) = Inr oc3" and e: "occ_weather (ocr_current oc3) = []"
    by simp_all
  show "fetchState (run s (refreshPosition env s la lo)) = error"
    and "fetchState (run s (mountPosition env s la lo)) = error"
    and "weather (run s (refreshPosition env s la lo)) = weather s"
    and "weather (run s (mountPosition env s la lo)) = weather s"
    by (simp_all add: refresh_no_condition [OF f e] mount_no_condition [OF f e] run_Cons run_Nil)
next
  assume a: "geocodeCity env ''New York'' = Inr (Some g')
        \<and> fetchOneCall env (geo_lat g') (geo_lon g') (units s) = Inr oc4
        \<and> occ_weather (ocr_current oc4) = []"
  then have tr: "loadDefaultCity env s =
     [SetFetchState loading, CallGeocodeCity ''New York'',
      CallFetchOneCall (geo_lat g') (geo_lon g') (units s), SetFetchState idle,
      SetError (Some (''Unable to load default city: '' @ err_message (undefinedProperty ''main'')))]"
    using default_no_condition [of env g' s oc4] by simp
  show "fetchState (run s (loadDefaultCity env s)) = idle"
    and "error_msg (run s (loadDefaultCity env s))
            = Some (''Unable to load default city: '' @ err_message (undefinedProperty ''main''))"
    and "weather (run s (loadDefaultCity env s)) = weather s"
    by (simp_all add: tr run_Cons run_Nil)
qed

theorem success_needs_a_condition_witness:
  "SetFetchState success \<in> set (perform envForecastCodDown typedParis SearchByCity)
   \<and> (\<exists>lat lon u oc n c.
         CallFetchOneCall lat lon u \<in> set (perform envForecastCodDown typedParis SearchByCity)
         \<and> fetchOneCall envForecastCodDown lat lon u = Inr oc
         \<and> occ_weather (ocr_current oc) \<noteq> []
         \<and> weather (after envForecastCodDown typedParis SearchByCity) = Some (snapshot n c oc))
   \<and> trim (searchQuery typedParis) \<noteq> []
   \<and> geocodeCity envNoCondition (trim (searchQuery typedParis)) = Inr (Some paris)
   \<and> fetchOneCall envNoCondition (geo_lat paris) (geo_lon paris) (units typedParis) = Inr bareOneCall
   \<and> occ_weather (ocr_current bareOneCall) = []
   \<and> fetchState (after envNoCondition typedParis SearchByCity) = error
   \<and> weather (after envNoCondition typedParis SearchByCity) = None
   \<and> weather parisShown = Some parisSnapshot \<and> imperial \<noteq> units parisShown
   \<and> fetchOneCall envNoCondition (rw_lat parisSnapshot) (rw_lon parisSnapshot) imperial = Inr bareOneCall
   \<and> fetchState (after envNoCondition parisShown (ChangeUnits imperial)) = error
   \<and> weather (after envNoCondition parisShown (ChangeUnits imperial)) = Some parisSnapshot
   \<and> fetchState (run typedParis (refreshPosition envNoCondition typedParis (geo_lat paris) (geo_lon paris))) = error
   \<and> fetchState (run typedParis (mountPosition envNoCondition typedParis (geo_lat paris) (geo_lon paris))) = error
   \<and> geocodeCity envNoCondition ''New York'' = Inr (Some newYork)
   \<and> fetchOneCall envNoCondition (geo_lat newYork) (geo_lon newYork) (units typedParis) = Inr bareOneCall
   \<and> fetchState (run typedParis (loadDefaultCity envNoCondition typedParis)) = idle"
proof -
  have a: "SetFetchState success \<in> set (perform envForecastCodDown typedParis SearchByCity)"
    by code_simp
  have b1: "trim (searchQuery typedParis) \<noteq> []" by code_simp
  have b2: "geocodeCity envNoCondition (trim (searchQuery typedParis)) = Inr (Some paris)"
    by code_simp
  have b3: "fetchOneCall envNoCondition (geo_lat paris) (geo_lon paris) (units typedParis) = Inr bareOneCall"
    by code_simp
  have b4: "occ_weather (ocr_current bareOneCall) = []" by (simp add: bareOneCall_def)
  have c1: "weather parisShown = Some parisSnapshot" "imperial \<noteq> units parisShown"
    by (simp_all add: parisShown_def)
  have c3: "fetchOneCall envNoCondition (rw_lat parisSnapshot) (rw_lon parisSnapshot) imperial = Inr bareOneCall"
    by code_simp
  have e1: "geocodeCity envNoCondition ''New York'' = Inr (Some newYork)" by code_simp
  have e2: "fetchOneCall envNoCondition (geo_lat newYork) (geo_lon newYork) (units typedParis) = Inr bareOneCall"
    by code_simp
  have n: "weather typedParis = None" by (simp add: typedParis_def initialState_def)
  from success_needs_a_condition [where env = envForecastCodDown and s = typedParis and i = SearchByCity]
    success_needs_a_condition [where env = envNoCondition and s = typedParis and g = paris
      and ?oc1.0 = bareOneCall and la = "geo_lat paris" and lo = "geo_lon paris" and ?oc3.0 = bareOneCall
      and g' = newYork and ?oc4.0 = bareOneCall]
    success_needs_a_condition [where env = envNoCondition and s = parisShown and w = parisSnapshot
      and ?next = imperial and ?oc2.0 = bareOneCall]
    a b1 b2 b3 b4 c1 c3 e1 e2 n
  show ?thesis by simp
qed

end
